theory Spec2Isabelle
  imports Complex_Main
begin

section \<open>Budget prediction service: data model\<close>

text \<open>
  Shallow embedding of \<^verbatim>\<open>ai-service/app.py\<close> (class \<^verbatim>\<open>AdvancedBudgetPredictor\<close>).
  Python and numpy floats are idealised as reals: rounding, NaN and infinities are not
  modelled, except that the NaN which pandas returns for the sample standard deviation
  of fewer than two values is the value \<open>None\<close>. Money amounts read from the database
  are integers (cents); dates are day numbers. Exceptions are values of \<open>py_error\<close>.
\<close>

datatype py_error = KeyError | ZeroDivisionError | IndexError | TypeError | DatabaseError

text \<open>A loop whose body may raise: the first exception ends the loop.\<close>

fun traverse :: "('a \<Rightarrow> py_error + 'b) \<Rightarrow> 'a list \<Rightarrow> py_error + 'b list" where
  "traverse f [] = Inr []"
| "traverse f (x # xs) =
     (case f x of
        Inl e \<Rightarrow> Inl e
      | Inr y \<Rightarrow> (case traverse f xs of Inl e \<Rightarrow> Inl e | Inr ys \<Rightarrow> Inr (y # ys)))"

text \<open>One row of the budget query, the spending query and the account query of
  \<^verbatim>\<open>fetch_comprehensive_data\<close> (the columns the predictor reads).\<close>

record budget_row =
  period_start :: int
  period_end :: int
  category_id :: int
  category_name :: string
  planned_cents :: int
  month :: int
  quarter :: int
  year :: int

record spending_row =
  sp_category_id :: int
  spent_cents :: int
  txn_date :: int

record account_row =
  acc_category_id :: int
  transaction_count :: int

text \<open>The dictionary \<^verbatim>\<open>features\<close> built for one (category, budget period).\<close>

record features =
  f_category_id :: int
  f_category_name :: string
  target_amount :: real
  f_month :: int
  f_quarter :: int
  f_year :: int
  month_sin :: real
  month_cos :: real
  quarter_sin :: real
  quarter_cos :: real
  historical_mean :: real
  historical_std :: "real option"
  historical_min :: real
  historical_max :: real
  historical_trend :: real
  historical_count :: nat
  historical_spent_mean :: real
  historical_spent_count :: nat
  historical_combined_mean :: real
  recent_mean :: real
  recent_trend :: real
  actual_spent :: real
  spending_frequency :: real
  avg_transaction_size :: real
  spending_volatility :: real
  budget_accuracy :: real
  account_diversity :: real
  primary_account_usage :: real

subsection \<open>Library functions of pandas, numpy and scipy\<close>

text \<open>\<^verbatim>\<open>Series.unique()\<close>: the distinct values in order of first appearance.\<close>

definition unique :: "'a list \<Rightarrow> 'a list" where
  "unique xs = rev (remdups (rev xs))"

text \<open>\<^verbatim>\<open>mean\<close>, \<^verbatim>\<open>min\<close>, \<^verbatim>\<open>max\<close> of a non-empty series; every call in the source
  is guarded by a length check.\<close>

definition mean :: "real list \<Rightarrow> real" where
  "mean xs = sum_list xs / real (length xs)"

definition pd_min :: "real list \<Rightarrow> real" where
  "pd_min xs = fold min (tl xs) (hd xs)"

definition pd_max :: "real list \<Rightarrow> real" where
  "pd_max xs = fold max (tl xs) (hd xs)"

text \<open>pandas \<^verbatim>\<open>Series.std()\<close> is the sample standard deviation (\<^verbatim>\<open>ddof=1\<close>), NaN for
  fewer than two values; \<^verbatim>\<open>np.std\<close> is the population standard deviation.\<close>

definition sample_std :: "real list \<Rightarrow> real" where
  "sample_std xs = sqrt (sum_list (map (\<lambda>x. (x - mean xs)\<^sup>2) xs) / real (length xs - 1))"

definition pd_std :: "real list \<Rightarrow> real option" where
  "pd_std xs = (if length xs < 2 then None else Some (sample_std xs))"

definition np_std :: "real list \<Rightarrow> real" where
  "np_std xs = sqrt (sum_list (map (\<lambda>x. (x - mean xs)\<^sup>2) xs) / real (length xs))"

text \<open>\<^verbatim>\<open>scipy.stats.linregress(x, values).slope\<close>: the least-squares slope.\<close>

definition linregress_slope :: "real list \<Rightarrow> real list \<Rightarrow> real" where
  "linregress_slope xs ys =
     sum_list (map (\<lambda>(x, y). (x - mean xs) * (y - mean ys)) (zip xs ys))
       / sum_list (map (\<lambda>x. (x - mean xs)\<^sup>2) xs)"

definition calculate_trend :: "real list \<Rightarrow> real" where
  "calculate_trend values =
     (if length values < 2 then 0
      else linregress_slope (map real [0..<length values]) values)"

text \<open>\<^verbatim>\<open>DataFrame.tail(3)\<close>.\<close>

definition tail3 :: "'a list \<Rightarrow> 'a list" where
  "tail3 xs = drop (length xs - 3) xs"

text \<open>Python's \<^verbatim>\<open>int(x)\<close> on a float truncates towards zero.\<close>

definition py_int :: "real \<Rightarrow> int" where
  "py_int x = (if 0 \<le> x then \<lfloor>x\<rfloor> else \<lceil>x\<rceil>)"

text \<open>Decimal rendering of a length inside an f-string.\<close>

fun str_nat :: "nat \<Rightarrow> string" where
  "str_nat n =
     (if n < 10 then [''0123456789'' ! n]
      else str_nat (n div 10) @ [''0123456789'' ! (n mod 10)])"

declare str_nat.simps [simp del]

subsection \<open>\<^verbatim>\<open>_classify_trend\<close>\<close>

definition classify_trend :: "real \<Rightarrow> string" where
  "classify_trend trend_slope =
     (if trend_slope > 100 then ''increasing''
      else if trend_slope < - 100 then ''decreasing''
      else ''stable'')"

section \<open>Feature engineering\<close>

text \<open>
  \<^verbatim>\<open>category_spending\<close> is \<^verbatim>\<open>spending_df[spending_df['category_id'] == category_id]\<close>
  when \<^verbatim>\<open>spending_df\<close> has rows, and the column-less \<^verbatim>\<open>pd.DataFrame()\<close> otherwise.
  The column-less frame is \<open>None\<close>: reading \<^verbatim>\<open>category_spending['txn_date']\<close> from it
  raises \<^verbatim>\<open>KeyError\<close>, which the loop over the historical budgets does.
\<close>

definition in_period :: "int \<Rightarrow> int \<Rightarrow> spending_row \<Rightarrow> bool" where
  "in_period start finish s \<longleftrightarrow> start \<le> txn_date s \<and> txn_date s \<le> finish"

definition spent_sum :: "spending_row list \<Rightarrow> real" where
  "spent_sum rows = real_of_int (sum_list (map spent_cents rows))"

text \<open>The loop filling \<^verbatim>\<open>historical_spent_values\<close>: one sum per past period that has
  spending.\<close>

definition historical_spent_values ::
  "spending_row list option \<Rightarrow> budget_row list \<Rightarrow> py_error + real list" where
  "historical_spent_values category_spending historical_budgets =
     (if historical_budgets = [] then Inr []
      else case category_spending of
        None \<Rightarrow> Inl KeyError
      | Some rows \<Rightarrow>
          Inr (List.map_filter
                 (\<lambda>past_row.
                    let period_spent =
                          filter (in_period (period_start past_row) (period_end past_row)) rows
                    in if period_spent = [] then None else Some (spent_sum period_spent))
                 historical_budgets))"

definition planned_values :: "budget_row list \<Rightarrow> real list" where
  "planned_values rows = map (\<lambda>b. real_of_int (planned_cents b)) rows"

text \<open>The budget-vs-actual accuracy of one period (lines 412 to 430).\<close>

definition budget_accuracy_of :: "spending_row list option \<Rightarrow> budget_row \<Rightarrow> real" where
  "budget_accuracy_of category_spending budget_row =
     (case category_spending of
        None \<Rightarrow> 0.5
      | Some rows \<Rightarrow>
          if rows = [] then 0.5
          else
            let period_spending =
                  filter (in_period (period_start budget_row) (period_end budget_row)) rows;
                actual = (if period_spending = [] then 0 else spent_sum period_spending);
                total_category_spending = spent_sum rows;
                planned_amount = real_of_int (planned_cents budget_row)
            in if actual > 0
               then 1 - \<bar>planned_amount - actual\<bar> / max planned_amount actual
               else if total_category_spending > 0 then 0.7
               else 0.5)"

text \<open>The body of the loop over the budget rows of one category: the feature vector of
  one period. \<open>category_budgets\<close> is sorted by \<open>period_start\<close>.\<close>

definition features_for_row ::
  "budget_row list \<Rightarrow> spending_row list option \<Rightarrow> account_row list \<Rightarrow> budget_row
     \<Rightarrow> py_error + features" where
  "features_for_row category_budgets category_spending category_accounts budget_row =
     (let historical_budgets =
            filter (\<lambda>b. period_start b < period_start budget_row) category_budgets;
          hist = planned_values historical_budgets;
          own = real_of_int (planned_cents budget_row);
          recent = planned_values (tail3 historical_budgets);
          spending_rows = (case category_spending of None \<Rightarrow> [] | Some rows \<Rightarrow> rows);
          period_spending =
            filter (in_period (period_start budget_row) (period_end budget_row)) spending_rows;
          period_amounts = map (\<lambda>s. real_of_int (spent_cents s)) period_spending
      in case historical_spent_values category_spending historical_budgets of
           Inl e \<Rightarrow> Inl e
         | Inr spent_values \<Rightarrow>
             Inr \<lparr> f_category_id = category_id budget_row,
                   f_category_name = category_name budget_row,
                   target_amount = own,
                   f_month = month budget_row,
                   f_quarter = quarter budget_row,
                   f_year = year budget_row,
                   month_sin = sin (2 * pi * real_of_int (month budget_row) / 12),
                   month_cos = cos (2 * pi * real_of_int (month budget_row) / 12),
                   quarter_sin = sin (2 * pi * real_of_int (quarter budget_row) / 4),
                   quarter_cos = cos (2 * pi * real_of_int (quarter budget_row) / 4),
                   historical_mean = (if historical_budgets \<noteq> [] then mean hist else own),
                   historical_std = (if historical_budgets \<noteq> [] then pd_std hist else Some 0),
                   historical_min = (if historical_budgets \<noteq> [] then pd_min hist else own),
                   historical_max = (if historical_budgets \<noteq> [] then pd_max hist else own),
                   historical_trend =
                     (if historical_budgets \<noteq> [] then calculate_trend hist else 0),
                   historical_count = length historical_budgets,
                   historical_spent_mean = (if spent_values \<noteq> [] then mean spent_values else 0),
                   historical_spent_count = length spent_values,
                   historical_combined_mean =
                     (if historical_budgets \<noteq> []
                      then (if spent_values \<noteq> []
                            then 0.7 * mean spent_values + 0.3 * mean hist
                            else mean hist)
                      else own),
                   recent_mean = (if historical_budgets \<noteq> [] then mean recent else own),
                   recent_trend =
                     (if historical_budgets \<noteq> [] \<and> length recent > 1
                      then calculate_trend recent else 0),
                   actual_spent = (if period_spending = [] then 0 else spent_sum period_spending),
                   spending_frequency = real (length period_spending),
                   avg_transaction_size =
                     (if period_spending = [] then 0 else mean period_amounts),
                   spending_volatility =
                     (if length period_spending > 1 then sample_std period_amounts else 0),
                   budget_accuracy = budget_accuracy_of category_spending budget_row,
                   account_diversity =
                     (if category_accounts \<noteq> [] then real (length category_accounts) else 1),
                   primary_account_usage =
                     (if category_accounts \<noteq> []
                      then pd_max (map (\<lambda>a. real_of_int (transaction_count a)) category_accounts)
                      else 1) \<rparr>)"

text \<open>The rows of one category, sorted by \<open>period_start\<close>, and its spending and account
  frames.\<close>

definition category_budgets_of :: "budget_row list \<Rightarrow> int \<Rightarrow> budget_row list" where
  "category_budgets_of budgets_df c =
     sort_key period_start (filter (\<lambda>b. category_id b = c) budgets_df)"

definition category_spending_of :: "spending_row list \<Rightarrow> int \<Rightarrow> spending_row list option" where
  "category_spending_of spending_df c =
     (if spending_df \<noteq> [] then Some (filter (\<lambda>s. sp_category_id s = c) spending_df)
      else None)"

definition category_accounts_of :: "account_row list \<Rightarrow> int \<Rightarrow> account_row list" where
  "category_accounts_of accounts_df c = filter (\<lambda>a. acc_category_id a = c) accounts_df"

definition category_features ::
  "budget_row list \<Rightarrow> spending_row list \<Rightarrow> account_row list \<Rightarrow> int
     \<Rightarrow> py_error + features list" where
  "category_features budgets_df spending_df accounts_df c =
     traverse
       (features_for_row (category_budgets_of budgets_df c)
          (category_spending_of spending_df c) (category_accounts_of accounts_df c))
       (category_budgets_of budgets_df c)"

definition engineer_features ::
  "budget_row list \<Rightarrow> spending_row list \<Rightarrow> account_row list \<Rightarrow> py_error + features list" where
  "engineer_features budgets_df spending_df accounts_df =
     (if budgets_df = [] then Inr []
      else case traverse (category_features budgets_df spending_df accounts_df)
                  (unique (map category_id budgets_df)) of
             Inl e \<Rightarrow> Inl e
           | Inr fss \<Rightarrow> Inr (concat fss))"

section \<open>Peer recommendations\<close>

text \<open>
  One row of the common table expression \<^verbatim>\<open>peer_budgets\<close> of the query in
  \<^verbatim>\<open>get_peer_recommendations\<close>, and the single row its final \<^verbatim>\<open>SELECT\<close> returns.
  The database is an external collaborator: \<open>peer_db\<close> gives the rows of
  \<^verbatim>\<open>peer_budgets\<close> for the peers, the category and the window, or fails. SQL aggregates
  over no rows are \<^verbatim>\<open>NULL\<close> (\<open>None\<close>), except \<^verbatim>\<open>COUNT(*)\<close>, which is 0; the numbers the
  driver returns are taken as reals.
\<close>

record peer_budget_row =
  pb_planned_cents :: int
  pb_actual_spent :: int
  pb_budget_variance :: int

record peer_query_result =
  q_avg_peer_budget :: "real option"
  q_avg_peer_spending :: "real option"
  q_avg_variance :: "real option"
  q_peer_samples :: nat
  q_budget_std :: "real option"
  q_min_budget :: "real option"
  q_max_budget :: "real option"

definition peer_query :: "peer_budget_row list \<Rightarrow> peer_query_result" where
  "peer_query peer_budgets =
     (let rows = filter (\<lambda>r. pb_planned_cents r > 0) peer_budgets;
          planned = map (\<lambda>r. real_of_int (pb_planned_cents r)) rows
      in \<lparr> q_avg_peer_budget = (if rows = [] then None else Some (mean planned)),
           q_avg_peer_spending =
             (if rows = [] then None
              else Some (mean (map (\<lambda>r. real_of_int (pb_actual_spent r)) rows))),
           q_avg_variance =
             (if rows = [] then None
              else Some (mean (map (\<lambda>r. real_of_int (pb_budget_variance r)) rows))),
           q_peer_samples = length rows,
           q_budget_std = pd_std planned,
           q_min_budget = (if rows = [] then None else Some (pd_min planned)),
           q_max_budget = (if rows = [] then None else Some (pd_max planned)) \<rparr>)"

record peer_recommendation =
  avg_peer_budget :: real
  avg_peer_spending :: real
  avg_variance :: real
  peer_samples :: nat
  budget_std :: real
  min_budget :: "real option"
  max_budget :: "real option"
  peer_count :: nat

record user_cluster_info =
  cluster_id :: int
  similarity_peers :: "int list"

type_synonym peer_db = "int list \<Rightarrow> int \<Rightarrow> nat \<Rightarrow> py_error + peer_budget_row list"

text \<open>Python's \<^verbatim>\<open>x or 0\<close> on a possibly-\<^verbatim>\<open>NULL\<close> number.\<close>

definition or_zero :: "real option \<Rightarrow> real" where
  "or_zero x = (case x of None \<Rightarrow> 0 | Some v \<Rightarrow> v)"

text \<open>The empty dictionary \<^verbatim>\<open>{}\<close> is \<open>None\<close>. Every exception inside the \<^verbatim>\<open>try\<close> is
  logged and turned into \<^verbatim>\<open>{}\<close>.\<close>

definition get_peer_recommendations ::
  "peer_db \<Rightarrow> int \<Rightarrow> int \<Rightarrow> (int \<rightharpoonup> user_cluster_info) \<Rightarrow> nat
     \<Rightarrow> peer_recommendation option" where
  "get_peer_recommendations db user_id target_category_id user_clusters historical_months =
     (case user_clusters user_id of
        None \<Rightarrow> None
      | Some info \<Rightarrow>
          let similar_users = similarity_peers info
          in if similar_users = [] then None
             else case db similar_users target_category_id historical_months of
                    Inl e \<Rightarrow> None
                  | Inr peer_budgets \<Rightarrow>
                      let result = peer_query peer_budgets
                      in (case q_avg_peer_budget result of
                            None \<Rightarrow> None
                          | Some avg \<Rightarrow>
                              if avg = 0 then None
                              else Some \<lparr> avg_peer_budget = avg,
                                          avg_peer_spending = or_zero (q_avg_peer_spending result),
                                          avg_variance = or_zero (q_avg_variance result),
                                          peer_samples = q_peer_samples result,
                                          budget_std = or_zero (q_budget_std result),
                                          min_budget = q_min_budget result,
                                          max_budget = q_max_budget result,
                                          peer_count = length similar_users \<rparr>))"

section \<open>The prediction decision policy\<close>

text \<open>
  The trained regressors, the two clusterings and the seasonal detector are library code
  (scikit-learn, scipy); what they return for this request is given by \<open>ml_env\<close>:
  \<open>raw_predictions c\<close> are the outputs of \<^verbatim>\<open>model.predict\<close> for category \<open>c\<close>, one per
  trained model (none when no model was trained).
\<close>

record ml_env =
  raw_predictions :: "int \<Rightarrow> real list"
  spending_clusters :: "int \<rightharpoonup> string"
  seasonal_patterns :: "int \<rightharpoonup> string"
  user_clusters :: "int \<rightharpoonup> user_cluster_info"
  peer_budgets_db :: peer_db

record MLBudgetPrediction =
  p_category_id :: int
  p_category_name :: string
  predicted_amount_cents :: int
  confidence_score :: real
  historical_avg_cents :: int
  historical_spending_avg_cents :: int
  trend_direction :: string
  ml_model_used :: string
  spending_cluster :: string
  seasonal_pattern :: string

text \<open>The three variables a branch assigns: \<^verbatim>\<open>predicted_amount\<close>, \<^verbatim>\<open>model_used\<close>,
  \<^verbatim>\<open>confidence\<close>; \<open>None\<close> is Python's \<^verbatim>\<open>None\<close>.\<close>

type_synonym decision = "real option \<times> string option \<times> real option"

definition base_confidence_of :: "nat \<Rightarrow> real" where
  "base_confidence_of data_points = min 0.9 (0.3 + real data_points * 0.08)"

definition accuracy_factor_of :: "real \<Rightarrow> real" where
  "accuracy_factor_of accuracy =
     (if accuracy > 0.7 then 1.2 else if accuracy < 0.3 then 0.8 else 1.0)"

definition model_agreement_of :: "real list \<Rightarrow> real" where
  "model_agreement_of predictions_dict =
     (if predictions_dict \<noteq> [] then
        (if length predictions_dict > 1 then
           (let pred_std = np_std predictions_dict;
                pred_mean = mean predictions_dict
            in if pred_mean > 0 then max 0.3 (1.0 - pred_std / pred_mean) else 0.5)
         else 0.7)
      else 0.7)"

definition ml_predicted_amount_of :: "real list \<Rightarrow> real \<Rightarrow> real" where
  "ml_predicted_amount_of predictions_dict historical_avg =
     (if predictions_dict \<noteq> [] then mean predictions_dict else historical_avg)"

definition ml_change_of :: "real list \<Rightarrow> real \<Rightarrow> real" where
  "ml_change_of predictions_dict historical_avg =
     (if predictions_dict \<noteq> []
      then \<bar>ml_predicted_amount_of predictions_dict historical_avg - historical_avg\<bar>
      else 0)"

text \<open>\<^verbatim>\<open>_statistical_fallback_prediction\<close>.\<close>

definition statistical_fallback_prediction :: "features list \<Rightarrow> real" where
  "statistical_fallback_prediction category_data =
     (if length category_data = 0 then 0 else mean (map target_amount category_data))"

text \<open>Python float division: a zero divisor raises.\<close>

definition py_div :: "real \<Rightarrow> real \<Rightarrow> py_error + real" where
  "py_div a b = (if b = 0 then Inl ZeroDivisionError else Inr (a / b))"

definition decided :: "real \<Rightarrow> string \<Rightarrow> real \<Rightarrow> decision" where
  "decided predicted_amount model_used confidence =
     (Some predicted_amount, Some model_used, Some confidence)"

text \<open>The condition of the accurate-budgeter branch (line 1096). \<^verbatim>\<open>and\<close> is
  short-circuit, so the division runs only when a model prediction exists and the
  spending average is positive.\<close>

definition accurate_budgeter_check :: "real list \<Rightarrow> real \<Rightarrow> real \<Rightarrow> py_error + bool" where
  "accurate_budgeter_check predictions_dict spending_historical_avg budget_historical_avg =
     (if predictions_dict \<noteq> [] \<and> spending_historical_avg > 0 then
        (case py_div spending_historical_avg budget_historical_avg of
           Inl e \<Rightarrow> Inl e
         | Inr ratio \<Rightarrow> Inr (\<bar>ratio - 1.0\<bar> < 0.02))
      else Inr False)"

text \<open>The body of the peer branch (lines 1103 to 1129).\<close>

definition peer_branch :: "peer_recommendation option \<Rightarrow> real \<Rightarrow> decision" where
  "peer_branch peer_data historical_avg =
     (case peer_data of
        None \<Rightarrow> (None, None, None)
      | Some pd \<Rightarrow>
          if peer_samples pd \<ge> 3 then
            (let peer_budget = avg_peer_budget pd;
                 peer_confidence = min 0.8 (0.4 + real (peer_samples pd) * 0.05)
             in if historical_avg > 0 then
                  (let peer_weight = min 0.6 (real (peer_samples pd) / 10)
                   in decided (historical_avg * (1 - peer_weight) + peer_budget * peer_weight)
                        (''Peer-Informed Prediction ('' @ str_nat (peer_count pd)
                           @ '' similar users)'')
                        peer_confidence)
                else
                  decided peer_budget
                    (''Peer-Based Recommendation ('' @ str_nat (peer_count pd)
                       @ '' similar users)'')
                    peer_confidence)
          else (None, None, None))"

text \<open>The \<^verbatim>\<open>elif\<close> branches that follow the peer branch (lines 1130 to 1202).\<close>

definition later_branches ::
  "nat \<Rightarrow> real \<Rightarrow> real list \<Rightarrow> real \<Rightarrow> real \<Rightarrow> features list \<Rightarrow> py_error + decision" where
  "later_branches data_points accuracy predictions_dict budget_historical_avg
       spending_historical_avg category_data =
     (let historical_avg = budget_historical_avg;
          base_confidence = base_confidence_of data_points;
          accuracy_factor = accuracy_factor_of accuracy;
          model_agreement = model_agreement_of predictions_dict;
          ml_predicted_amount = ml_predicted_amount_of predictions_dict historical_avg;
          ml_change = ml_change_of predictions_dict historical_avg;
          max_reasonable_change = historical_avg * 0.5
      in if predictions_dict \<noteq> [] \<and> accuracy = 0.5 then
           (if ml_change > max_reasonable_change then
              Inr (decided (historical_avg * 0.9 + ml_predicted_amount * 0.1)
                     ''Conservative Historical (ML too extreme, neutral accuracy)''
                     (base_confidence * model_agreement * 0.7))
            else
              Inr (decided (historical_avg * 0.8 + ml_predicted_amount * 0.2)
                     ''Conservative Ensemble (neutral accuracy)''
                     (base_confidence * model_agreement * 0.85)))
         else if predictions_dict \<noteq> [] \<and> accuracy > 0.5 then
           (let confidence = base_confidence * accuracy_factor * model_agreement * 0.85
            in if spending_historical_avg > 0
                  \<and> spending_historical_avg > budget_historical_avg * 1.05 then
                 Inr (decided
                        (max budget_historical_avg (spending_historical_avg * 0.95) * 0.7
                           + ml_predicted_amount * 0.3)
                        ''Spending-Informed Ensemble (spending > budget)'' confidence)
               else if ml_change > max_reasonable_change then
                 Inr (decided (historical_avg * 0.95 + ml_predicted_amount * 0.05)
                        ''Conservative Historical (ML too extreme)'' confidence)
               else
                 Inr (decided (historical_avg * 0.6 + ml_predicted_amount * 0.4)
                        ''Confident Ensemble (good accuracy)'' confidence))
         else if predictions_dict \<noteq> [] \<and> ml_change < historical_avg * 0.02 then
           Inr (decided historical_avg ''Historical Average (stable pattern)''
                  (base_confidence * accuracy_factor * model_agreement * 0.95))
         else if predictions_dict \<noteq> [] then
           (let confidence = base_confidence * accuracy_factor * model_agreement * 0.9
            in if spending_historical_avg > 0 then
                 (case py_div spending_historical_avg budget_historical_avg of
                    Inl e \<Rightarrow> Inl e
                  | Inr spending_vs_budget_ratio \<Rightarrow>
                      if spending_vs_budget_ratio > 1.05 then
                        Inr (decided (min ml_predicted_amount (spending_historical_avg * 1.1))
                               ''Spending-Aware Ensemble (tend to overspend)'' confidence)
                      else if spending_vs_budget_ratio < 0.95 then
                        Inr (decided (budget_historical_avg * 0.7 + ml_predicted_amount * 0.3)
                               ''Conservative Ensemble (good at budgeting)'' confidence)
                      else
                        Inr (decided (spending_historical_avg * 0.8 + ml_predicted_amount * 0.2)
                               ''Balanced Ensemble (reasonable budgeter)'' confidence))
               else
                 Inr (decided (budget_historical_avg * 0.85 + ml_predicted_amount * 0.15)
                        ''Conservative Ensemble (no spending history)'' confidence))
         else
           Inr (decided (statistical_fallback_prediction category_data)
                  ''Historical Average'' (base_confidence * 0.7)))"

text \<open>The whole \<^verbatim>\<open>if\<close>/\<^verbatim>\<open>elif\<close> chain (lines 1084 to 1202). The variables start as
  \<^verbatim>\<open>None\<close>; exactly one branch runs.\<close>

definition decision_policy ::
  "ml_env \<Rightarrow> int \<Rightarrow> int \<Rightarrow> nat \<Rightarrow> real \<Rightarrow> real list \<Rightarrow> real \<Rightarrow> real \<Rightarrow> features list
     \<Rightarrow> py_error + decision" where
  "decision_policy env user_id cat data_points accuracy predictions_dict
       budget_historical_avg spending_historical_avg category_data =
     (let historical_avg = budget_historical_avg;
          base_confidence = base_confidence_of data_points;
          accuracy_factor = accuracy_factor_of accuracy;
          model_agreement = model_agreement_of predictions_dict
      in if data_points < 3 then
           Inr (decided historical_avg
                  (''Historical Average (only '' @ str_nat data_points @ '' data points)'')
                  (base_confidence * 0.6))
         else if accuracy < 0.2 then
           Inr (decided historical_avg ''Historical Average (very low accuracy)''
                  (base_confidence * accuracy_factor * 0.7))
         else
           (case accurate_budgeter_check predictions_dict spending_historical_avg
                   budget_historical_avg of
              Inl e \<Rightarrow> Inl e
            | Inr accurate \<Rightarrow>
                if accurate then
                  Inr (decided (max budget_historical_avg (spending_historical_avg * 1.02))
                         ''Accurate Budgeter (spending  budget)''
                         (base_confidence * accuracy_factor * model_agreement * 0.92))
                else if data_points < 5 \<and> user_clusters env user_id \<noteq> None then
                  Inr (peer_branch
                         (get_peer_recommendations (peer_budgets_db env) user_id cat
                            (user_clusters env) 6)
                         historical_avg)
                else
                  later_branches data_points accuracy predictions_dict budget_historical_avg
                    spending_historical_avg category_data))"

text \<open>The safety check after the chain (lines 1204 to 1209) and the clamp (line 1212).\<close>

definition safety_check :: "decision \<Rightarrow> real \<Rightarrow> real \<Rightarrow> decision" where
  "safety_check d historical_avg base_confidence =
     (if fst d = None \<or> fst (snd d) = None
      then decided historical_avg ''Fallback Historical Average'' (base_confidence * 0.6)
      else d)"

definition clamp_confidence :: "real \<Rightarrow> real" where
  "clamp_confidence confidence = max 0.1 (min 0.95 confidence)"

text \<open>
  The body of the loop over the categories (lines 970 to 1241). \<^verbatim>\<open>np.isfinite(pred) and
  pred >= 0\<close> keeps the non-negative model outputs. Clamping a confidence that is still
  \<^verbatim>\<open>None\<close> would raise \<^verbatim>\<open>TypeError\<close>. The fields \<^verbatim>\<open>feature_importance\<close> and \<^verbatim>\<open>reasoning\<close>
  (formatted text) of the result are left out.
\<close>

definition category_data_of :: "features list \<Rightarrow> int \<Rightarrow> features list" where
  "category_data_of features_df cat = filter (\<lambda>f. f_category_id f = cat) features_df"

definition latest_data_of :: "features list \<Rightarrow> int \<Rightarrow> features" where
  "latest_data_of features_df cat = last (category_data_of features_df cat)"

text \<open>\<^verbatim>\<open>build_ml_models\<close> trains nothing on fewer than five feature vectors, and then
  \<^verbatim>\<open>predictions_dict\<close> stays empty.\<close>

definition predictions_dict_of :: "ml_env \<Rightarrow> features list \<Rightarrow> int \<Rightarrow> real list" where
  "predictions_dict_of env features_df cat =
     (if length features_df < 5 then []
      else filter (\<lambda>pred. pred \<ge> 0) (raw_predictions env cat))"

definition predict_category ::
  "ml_env \<Rightarrow> int \<Rightarrow> features list \<Rightarrow> int \<Rightarrow> py_error + MLBudgetPrediction" where
  "predict_category env user_id features_df cat =
     (let category_data = category_data_of features_df cat
      in if category_data = [] then Inl IndexError
         else
           let latest_data = latest_data_of features_df cat;
               predictions_dict = predictions_dict_of env features_df cat;
               budget_historical_avg = historical_mean latest_data;
               spending_historical_avg = historical_spent_mean latest_data;
               historical_avg = budget_historical_avg;
               data_points = length category_data;
               accuracy = budget_accuracy latest_data
           in case decision_policy env user_id cat data_points accuracy predictions_dict
                     budget_historical_avg spending_historical_avg category_data of
                Inl e \<Rightarrow> Inl e
              | Inr d \<Rightarrow>
                  (case safety_check d historical_avg (base_confidence_of data_points) of
                     (Some predicted_amount, Some model_used, Some confidence) \<Rightarrow>
                       Inr \<lparr> p_category_id = cat,
                             p_category_name = f_category_name latest_data,
                             predicted_amount_cents = py_int predicted_amount,
                             confidence_score = clamp_confidence confidence,
                             historical_avg_cents = py_int historical_avg,
                             historical_spending_avg_cents = py_int spending_historical_avg,
                             trend_direction = classify_trend (historical_trend latest_data),
                             ml_model_used = model_used,
                             spending_cluster =
                               (case spending_clusters env cat of
                                  None \<Rightarrow> ''Unknown'' | Some l \<Rightarrow> l),
                             seasonal_pattern =
                               (case seasonal_patterns env cat of
                                  None \<Rightarrow> ''Unknown'' | Some l \<Rightarrow> l) \<rparr>
                   | _ \<Rightarrow> Inl TypeError))"

definition predict_from_features ::
  "ml_env \<Rightarrow> int \<Rightarrow> features list \<Rightarrow> py_error + MLBudgetPrediction list" where
  "predict_from_features env user_id features_df =
     traverse (predict_category env user_id features_df)
       (unique (map f_category_id features_df))"

text \<open>
  \<^verbatim>\<open>predict_with_ml\<close> on the three frames that \<^verbatim>\<open>fetch_comprehensive_data\<close> returned. One
  \<^verbatim>\<open>try\<close> encloses the whole function: any exception is logged and the result is the
  empty list. \<^verbatim>\<open>list.sort(key=..., reverse=True)\<close> is stable.
\<close>

definition predict_with_ml ::
  "ml_env \<Rightarrow> int \<Rightarrow> budget_row list \<Rightarrow> spending_row list \<Rightarrow> account_row list
     \<Rightarrow> MLBudgetPrediction list" where
  "predict_with_ml env user_id budgets_df spending_df accounts_df =
     (if budgets_df = [] then []
      else case engineer_features budgets_df spending_df accounts_df of
             Inl e \<Rightarrow> []
           | Inr features_df \<Rightarrow>
               if features_df = [] then []
               else case predict_from_features env user_id features_df of
                      Inl e \<Rightarrow> []
                    | Inr predictions \<Rightarrow>
                        sort_key (\<lambda>p. - confidence_score p) predictions)"

section \<open>Example requests\<close>

text \<open>Monthly budget periods of thirty days, numbered from 0; a transaction on a given
  day; an environment whose models all predict the same amounts and whose peer query
  returns the given rows.\<close>

definition example_budget :: "int \<Rightarrow> string \<Rightarrow> int \<Rightarrow> int \<Rightarrow> budget_row" where
  "example_budget cat name k planned =
     \<lparr> period_start = 30 * k, period_end = 30 * k + 29, category_id = cat,
       category_name = name, planned_cents = planned, month = k + 1,
       quarter = k div 3 + 1, year = 2025 \<rparr>"

definition example_spending :: "int \<Rightarrow> int \<Rightarrow> int \<Rightarrow> spending_row" where
  "example_spending cat day amount =
     \<lparr> sp_category_id = cat, spent_cents = amount, txn_date = day \<rparr>"

definition example_env ::
  "real list \<Rightarrow> (int \<rightharpoonup> user_cluster_info) \<Rightarrow> peer_budget_row list \<Rightarrow> ml_env" where
  "example_env preds clusters peer_rows =
     \<lparr> raw_predictions = (\<lambda>cat. preds), spending_clusters = Map.empty,
       seasonal_patterns = Map.empty, user_clusters = clusters,
       peer_budgets_db = (\<lambda>peers cat months. Inr peer_rows) \<rparr>"

text \<open>A user with a single budget period for one category and no transactions.\<close>

definition single_rent :: "budget_row list" where
  "single_rent = [example_budget 2 ''Rent'' 0 90000]"

definition single_rent_prediction :: MLBudgetPrediction where
  "single_rent_prediction =
     \<lparr> p_category_id = 2, p_category_name = ''Rent'', predicted_amount_cents = 90000,
       confidence_score = 0.228, historical_avg_cents = 90000,
       historical_spending_avg_cents = 0, trend_direction = ''stable'',
       ml_model_used = ''Historical Average (only 1 data points)'',
       spending_cluster = ''Unknown'', seasonal_pattern = ''Unknown'' \<rparr>"

text \<open>A category with two budget periods and one transaction in the first.\<close>

definition two_period_budgets :: "budget_row list" where
  "two_period_budgets = [example_budget 3 ''Fun'' 0 4000, example_budget 3 ''Fun'' 1 6000]"

definition two_period_spending :: "spending_row list" where
  "two_period_spending = [example_spending 3 5 3500]"

text \<open>Five periods budgeted at 100.00 with 99.80 spent in each, and two trained models
  that both predict 100.00.\<close>

definition accurate_budgets :: "budget_row list" where
  "accurate_budgets =
     [example_budget 1 ''Food'' 0 10000, example_budget 1 ''Food'' 1 10000,
      example_budget 1 ''Food'' 2 10000, example_budget 1 ''Food'' 3 10000,
      example_budget 1 ''Food'' 4 10000]"

definition accurate_spending :: "spending_row list" where
  "accurate_spending =
     [example_spending 1 5 9980, example_spending 1 35 9980, example_spending 1 65 9980,
      example_spending 1 95 9980, example_spending 1 125 9980]"

definition accurate_env :: ml_env where
  "accurate_env = example_env [10000, 10000] Map.empty []"

text \<open>User 1 is clustered with the single peer 2.\<close>

definition example_clusters :: "int \<rightharpoonup> user_cluster_info" where
  "example_clusters = [1 \<mapsto> \<lparr> cluster_id = 0, similarity_peers = [2] \<rparr>]"

text \<open>Three periods of one category without any spending, two periods of another with
  one transaction; the models predict 20.00; the peers have no budget for the category.\<close>

definition peer_example_budgets :: "budget_row list" where
  "peer_example_budgets =
     [example_budget 1 ''Food'' 0 1000, example_budget 1 ''Food'' 1 1000,
      example_budget 1 ''Food'' 2 1000,
      example_budget 2 ''Rent'' 0 90000, example_budget 2 ''Rent'' 1 90000]"

definition peer_example_spending :: "spending_row list" where
  "peer_example_spending = [example_spending 2 5 90000]"

definition peer_example_env :: ml_env where
  "peer_example_env = example_env [2000, 2000] example_clusters []"







text \<open>A budget row with a negative planned amount and a transaction in its period.\<close>

definition negative_plan_budgets :: "budget_row list" where
  "negative_plan_budgets = [example_budget 1 ''Food'' 0 (- 1000)]"

definition negative_plan_spending :: "spending_row list" where
  "negative_plan_spending = [example_spending 1 5 1000]"

text \<open>One period with a transaction of exactly the planned amount; the next
  period without any.\<close>

definition exact_budgets :: "budget_row list" where
  "exact_budgets = [example_budget 1 ''Food'' 0 2500, example_budget 1 ''Food'' 1 2500]"

definition exact_spending :: "spending_row list" where
  "exact_spending = [example_spending 1 5 2500]"

text \<open>A second request that agrees with \<open>exact_budgets\<close> and \<open>exact_spending\<close> on
  everything dated before day 30, the start of the second period: it has one more
  transaction, on day 40, and another planned amount for the second period.\<close>

definition window_spending_after :: "spending_row list" where
  "window_spending_after = [example_spending 1 5 2500, example_spending 1 40 700]"

definition window_budgets_changed :: "budget_row list" where
  "window_budgets_changed = [example_budget 1 ''Food'' 0 2500, example_budget 1 ''Food'' 1 9999]"

text \<open>The same with no earlier transaction of the category: the only other transaction
  belongs to a category without budget.\<close>

definition other_spending_before :: "spending_row list" where
  "other_spending_before = [example_spending 9 5 100]"

definition other_spending_after :: "spending_row list" where
  "other_spending_after = [example_spending 9 5 100, example_spending 1 40 700]"

text \<open>The environment of the two-period request: no model is trained on two feature
  vectors, the behaviour clustering needs three, and the seasonal detector reports
  too few periods.\<close>

definition two_period_env :: ml_env where
  "two_period_env =
     (example_env [] Map.empty []) \<lparr> seasonal_patterns := [3 \<mapsto> ''Insufficient data''] \<rparr>"

text \<open>A category with three consecutive periods and the given planned amounts.\<close>

definition three_periods :: "int \<Rightarrow> int \<Rightarrow> int \<Rightarrow> budget_row list" where
  "three_periods a b c =
     [example_budget 4 ''Travel'' 0 a, example_budget 4 ''Travel'' 1 b,
      example_budget 4 ''Travel'' 2 c]"

text \<open>Four periods: the latest one has three earlier periods.\<close>

definition four_periods :: "budget_row list" where
  "four_periods =
     [example_budget 4 ''Travel'' 0 10000, example_budget 4 ''Travel'' 1 10100,
      example_budget 4 ''Travel'' 2 10600, example_budget 4 ''Travel'' 3 10600]"

text \<open>One transaction in the first period, and the environment of such a request: too
  few feature vectors for a model, and the given seasonal label.\<close>

definition trend_spending :: "spending_row list" where
  "trend_spending = [example_spending 4 5 900]"

definition trend_env :: "string \<Rightarrow> ml_env" where
  "trend_env seasonal =
     (example_env [] Map.empty [])
       \<lparr> spending_clusters := [4 \<mapsto> ''Balanced''], seasonal_patterns := [4 \<mapsto> seasonal] \<rparr>"

section \<open>Properties\<close>

subsection \<open>Loops that may raise\<close>

lemma traverse_Inr_elem:
  "traverse f xs = Inr ys \<Longrightarrow> y \<in> set ys \<Longrightarrow> \<exists>x \<in> set xs. f x = Inr y"
  by (induction xs arbitrary: ys) (auto split: sum.splits)

lemma traverse_Inr_length: "traverse f xs = Inr ys \<Longrightarrow> length ys = length xs"
  by (induction xs arbitrary: ys) (auto split: sum.splits)



subsection \<open>The shape of the engineered feature list\<close>

lemma distinct_unique: "distinct (unique xs)"
  by (simp add: unique_def)

lemma set_unique: "set (unique xs) = set xs"
  by (simp add: unique_def)

lemma features_for_row_category:
  "features_for_row cb cs ca r = Inr fv \<Longrightarrow> f_category_id fv = category_id r"
  unfolding features_for_row_def Let_def
  by (auto split: sum.splits)

lemma set_category_budgets_of:
  "set (category_budgets_of budgets_df c) = {b \<in> set budgets_df. category_id b = c}"
  by (auto simp: category_budgets_of_def)

lemma category_features_category:
  assumes "category_features budgets_df spending_df accounts_df c = Inr fs" "fv \<in> set fs"
  shows "f_category_id fv = c"
proof -
  from assms obtain r where "r \<in> set (category_budgets_of budgets_df c)"
    and "features_for_row (category_budgets_of budgets_df c)
           (category_spending_of spending_df c) (category_accounts_of accounts_df c) r = Inr fv"
    unfolding category_features_def by (blast dest: traverse_Inr_elem)
  then show ?thesis
    by (auto simp: set_category_budgets_of dest: features_for_row_category)
qed

text \<open>Grouped output: when every group carries its own key, filtering the concatenation
  by a key gives back that key's group.\<close>

lemma traverse_keys:
  assumes "traverse g cs = Inr fss"
    and "\<And>c ys f. g c = Inr ys \<Longrightarrow> f \<in> set ys \<Longrightarrow> key f = c"
    and "f \<in> set (concat fss)"
  shows "key f \<in> set cs"
  using assms(1,3)
proof (induction cs arbitrary: fss)
  case Nil
  then show ?case by simp
next
  case (Cons c cs)
  from Cons.prems(1) obtain ys fss' where
    g: "g c = Inr ys" and t: "traverse g cs = Inr fss'" and fss: "fss = ys # fss'"
    by (auto split: sum.splits)
  from Cons.prems(2) fss consider "f \<in> set ys" | "f \<in> set (concat fss')" by auto
  then show ?case
  proof cases
    case 1
    with assms(2) [OF g] show ?thesis by simp
  next
    case 2
    with Cons.IH [OF t] show ?thesis by simp
  qed
qed

lemma traverse_group:
  assumes "traverse g cs = Inr fss"
    and "\<And>c ys f. g c = Inr ys \<Longrightarrow> f \<in> set ys \<Longrightarrow> key f = c"
    and "distinct cs" and "c \<in> set cs"
  shows "g c = Inr (filter (\<lambda>f. key f = c) (concat fss))"
  using assms(1,3,4)
proof (induction cs arbitrary: fss)
  case Nil
  then show ?case by simp
next
  case (Cons c' cs)
  from Cons.prems(1) obtain ys fss' where
    g: "g c' = Inr ys" and t: "traverse g cs = Inr fss'" and fss: "fss = ys # fss'"
    by (auto split: sum.splits)
  have own: "filter (\<lambda>f. key f = c') ys = ys"
    using assms(2) [OF g] by (simp add: filter_id_conv)
  show ?case
  proof (cases "c = c'")
    case True
    have "c' \<notin> set cs" using Cons.prems(2) by simp
    then have "filter (\<lambda>f. key f = c') (concat fss') = []"
      using traverse_keys [OF t assms(2)] by (fastforce simp: filter_empty_conv)
    with own g fss True show ?thesis by simp
  next
    case False
    then have "c \<in> set cs" using Cons.prems(3) by simp
    moreover have "distinct cs" using Cons.prems(2) by simp
    ultimately have "g c = Inr (filter (\<lambda>f. key f = c) (concat fss'))"
      using Cons.IH [OF t] by blast
    moreover have "filter (\<lambda>f. key f = c) ys = []"
      using assms(2) [OF g] False by (auto simp: filter_empty_conv)
    ultimately show ?thesis using fss by simp
  qed
qed

lemma engineer_features_category_data:
  assumes "engineer_features budgets_df spending_df accounts_df = Inr features_df"
    and "c \<in> category_id ` set budgets_df"
  shows "category_features budgets_df spending_df accounts_df c
           = Inr (category_data_of features_df c)"
proof -
  from assms(2) have ne: "budgets_df \<noteq> []" by auto
  with assms(1) obtain fss where
    t: "traverse (category_features budgets_df spending_df accounts_df)
          (unique (map category_id budgets_df)) = Inr fss"
    and fs: "features_df = concat fss"
    unfolding engineer_features_def by (auto split: sum.splits)
  have "c \<in> set (unique (map category_id budgets_df))"
    using assms(2) by (simp add: set_unique)
  from traverse_group [OF t _ distinct_unique this, of f_category_id]
  show ?thesis
    unfolding category_data_of_def fs
    using category_features_category by blast
qed

lemma engineer_features_elem:
  assumes "engineer_features budgets_df spending_df accounts_df = Inr features_df"
    and "fv \<in> set features_df"
  shows "\<exists>r \<in> set budgets_df.
           features_for_row (category_budgets_of budgets_df (category_id r))
             (category_spending_of spending_df (category_id r))
             (category_accounts_of accounts_df (category_id r)) r = Inr fv"
proof -
  from assms(2) assms(1) have ne: "budgets_df \<noteq> []"
    unfolding engineer_features_def by (auto split: if_splits)
  with assms(1) obtain fss where
    t: "traverse (category_features budgets_df spending_df accounts_df)
          (unique (map category_id budgets_df)) = Inr fss"
    and fs: "features_df = concat fss"
    unfolding engineer_features_def by (auto split: sum.splits)
  from assms(2) fs obtain ys where ys: "ys \<in> set fss" "fv \<in> set ys" by auto
  from traverse_Inr_elem [OF t ys(1)] obtain c where
    c: "category_features budgets_df spending_df accounts_df c = Inr ys" by blast
  from traverse_Inr_elem [OF c [unfolded category_features_def] ys(2)] obtain r where
    r: "r \<in> set (category_budgets_of budgets_df c)"
    "features_for_row (category_budgets_of budgets_df c)
       (category_spending_of spending_df c) (category_accounts_of accounts_df c) r = Inr fv"
    by blast
  from r(1) have "r \<in> set budgets_df" "category_id r = c"
    by (auto simp: set_category_budgets_of)
  with r(2) show ?thesis by blast
qed


subsection \<open>Unfolding sets for evaluation\<close>

lemmas engineer_defs = engineer_features_def category_features_def category_budgets_of_def
  category_spending_of_def category_accounts_of_def features_for_row_def
  historical_spent_values_def unique_def planned_values_def in_period_def spent_sum_def
  budget_accuracy_of_def mean_def tail3_def List.map_filter_def

lemmas policy_defs = predict_with_ml_def predict_from_features_def predict_category_def
  category_data_of_def latest_data_of_def predictions_dict_of_def decision_policy_def
  later_branches_def peer_branch_def accurate_budgeter_check_def py_div_def safety_check_def
  clamp_confidence_def decided_def base_confidence_of_def accuracy_factor_of_def
  model_agreement_of_def ml_predicted_amount_of_def ml_change_of_def
  statistical_fallback_prediction_def get_peer_recommendations_def peer_query_def
  or_zero_def py_int_def classify_trend_def np_std_def str_nat.simps

lemmas example_defs = example_budget_def example_spending_def example_env_def

subsection \<open>The single-period example\<close>

lemma single_rent_features:
  "\<exists>fv. engineer_features single_rent [] [] = Inr [fv] \<and> f_category_id fv = 2
          \<and> historical_trend fv = 0"
  by (simp add: single_rent_def engineer_defs example_defs Let_def)

lemma predict_single_rent:
  "predict_with_ml (example_env [] Map.empty []) 1 single_rent [] [] = [single_rent_prediction]"
  by (simp add: single_rent_def single_rent_prediction_def engineer_defs policy_defs
      example_defs Let_def)

subsection \<open>Results of the category loop\<close>

lemma predict_category_confidence:
  "predict_category env user_id features_df cat = Inr p \<Longrightarrow>
     0.1 \<le> confidence_score p \<and> confidence_score p \<le> 0.95"
  unfolding predict_category_def Let_def
  by (auto split: if_splits sum.splits prod.splits option.splits simp: clamp_confidence_def)

lemma predict_category_fields:
  "predict_category env user_id features_df cat = Inr p \<Longrightarrow>
     p_category_id p = cat
     \<and> trend_direction p = classify_trend (historical_trend (latest_data_of features_df cat))"
  unfolding predict_category_def Let_def
  by (auto split: if_splits sum.splits prod.splits option.splits)

lemma predict_with_ml_elem:
  assumes "p \<in> set (predict_with_ml env user_id budgets_df spending_df accounts_df)"
  shows "\<exists>features_df. engineer_features budgets_df spending_df accounts_df = Inr features_df
           \<and> predict_category env user_id features_df (p_category_id p) = Inr p"
proof -
  from assms obtain features_df predictions where
    ef: "engineer_features budgets_df spending_df accounts_df = Inr features_df" and
    pf: "predict_from_features env user_id features_df = Inr predictions" and
    mem: "p \<in> set predictions"
    unfolding predict_with_ml_def
    by (cases "engineer_features budgets_df spending_df accounts_df";
        cases "predict_from_features env user_id
                 (projr (engineer_features budgets_df spending_df accounts_df))")
       (auto split: if_splits)
  from pf mem obtain cat where c: "predict_category env user_id features_df cat = Inr p"
    unfolding predict_from_features_def by (blast dest: traverse_Inr_elem)
  with predict_category_fields [OF c] ef show ?thesis by auto
qed

text \<open>
  Claim C3. Every prediction that \<^verbatim>\<open>predict_with_ml\<close> returns has a confidence score in
  the closed interval from 0.1 to 0.95, whichever branch of the decision policy produced
  it.
\<close>

theorem confidence_bounds:
  assumes "p \<in> set (predict_with_ml env user_id budgets_df spending_df accounts_df)"
  shows "0.1 \<le> confidence_score p \<and> confidence_score p \<le> 0.95"
  using predict_with_ml_elem [OF assms] predict_category_confidence by blast

theorem confidence_bounds_witness:
  "single_rent_prediction
     \<in> set (predict_with_ml (example_env [] Map.empty []) 1 single_rent [] [])
   \<and> 0.1 \<le> confidence_score single_rent_prediction
   \<and> confidence_score single_rent_prediction \<le> 0.95"
proof -
  have mem: "single_rent_prediction
      \<in> set (predict_with_ml (example_env [] Map.empty []) 1 single_rent [] [])"
    by (simp add: predict_single_rent)
  from confidence_bounds [OF mem] mem show ?thesis by simp
qed

lemma classify_trend_cases:
  "(classify_trend s = ''increasing'' \<longleftrightarrow> s > 100)
   \<and> (classify_trend s = ''decreasing'' \<longleftrightarrow> s < - 100)
   \<and> (classify_trend s = ''stable'' \<longleftrightarrow> - 100 \<le> s \<and> s \<le> 100)"
  by (auto simp: classify_trend_def)

subsection \<open>The insufficient-data branch\<close>

lemma traverse_last:
  "traverse f xs = Inr ys \<Longrightarrow> xs \<noteq> [] \<Longrightarrow> f (last xs) = Inr (last ys)"
proof (induction xs arbitrary: ys)
  case Nil
  then show ?case by simp
next
  case (Cons x xs)
  from Cons.prems(1) obtain y ys' where
    y: "f x = Inr y" and t: "traverse f xs = Inr ys'" and ys: "ys = y # ys'"
    by (auto split: sum.splits)
  show ?case
  proof (cases "xs = []")
    case True
    with y t ys show ?thesis by simp
  next
    case False
    with traverse_Inr_length [OF t] have "ys' \<noteq> []" by auto
    with Cons.IH [OF t False] False ys show ?thesis by simp
  qed
qed

lemma length_category_budgets_of:
  "length (category_budgets_of budgets_df c)
     = length (filter (\<lambda>b. category_id b = c) budgets_df)"
  by (simp add: category_budgets_of_def)

lemma category_budgets_of_nonempty:
  assumes "c \<in> category_id ` set budgets_df"
  shows "category_budgets_of budgets_df c \<noteq> []"
proof -
  from assms have "set (category_budgets_of budgets_df c) \<noteq> {}"
    by (auto simp: set_category_budgets_of)
  then show ?thesis by auto
qed

lemma latest_features:
  assumes "engineer_features budgets_df spending_df accounts_df = Inr features_df"
    and "c \<in> category_id ` set budgets_df"
  shows "features_for_row (category_budgets_of budgets_df c)
           (category_spending_of spending_df c) (category_accounts_of accounts_df c)
           (last (category_budgets_of budgets_df c)) = Inr (latest_data_of features_df c)"
    and "length (category_data_of features_df c)
           = length (filter (\<lambda>b. category_id b = c) budgets_df)"
    and "category_data_of features_df c \<noteq> []"
proof -
  have t: "traverse
       (features_for_row (category_budgets_of budgets_df c)
          (category_spending_of spending_df c) (category_accounts_of accounts_df c))
       (category_budgets_of budgets_df c) = Inr (category_data_of features_df c)"
    using engineer_features_category_data [OF assms] by (simp add: category_features_def)
  from traverse_last [OF t category_budgets_of_nonempty [OF assms(2)]]
  show "features_for_row (category_budgets_of budgets_df c)
           (category_spending_of spending_df c) (category_accounts_of accounts_df c)
           (last (category_budgets_of budgets_df c)) = Inr (latest_data_of features_df c)"
    by (simp add: latest_data_of_def)
  from traverse_Inr_length [OF t]
  show len: "length (category_data_of features_df c)
           = length (filter (\<lambda>b. category_id b = c) budgets_df)"
    by (simp add: length_category_budgets_of)
  have "length (category_budgets_of budgets_df c) \<noteq> 0"
    using category_budgets_of_nonempty [OF assms(2)] by simp
  with traverse_Inr_length [OF t]
  have "length (category_data_of features_df c) \<noteq> 0" by simp
  then show "category_data_of features_df c \<noteq> []" by simp
qed

lemma base_confidence_small:
  "n < 3 \<Longrightarrow> clamp_confidence (base_confidence_of n * 0.6) = base_confidence_of n * 0.6"
proof -
  assume "n < 3"
  then consider "n = 0" | "n = 1" | "n = 2" by linarith
  then show ?thesis
    by cases (simp_all add: clamp_confidence_def base_confidence_of_def)
qed

lemma insufficient_data_prediction:
  assumes "category_data_of features_df cat \<noteq> []"
    and "length (category_data_of features_df cat) < 3"
  shows "predict_category env user_id features_df cat =
     Inr \<lparr> p_category_id = cat,
           p_category_name = f_category_name (latest_data_of features_df cat),
           predicted_amount_cents = py_int (historical_mean (latest_data_of features_df cat)),
           confidence_score =
             base_confidence_of (length (category_data_of features_df cat)) * 0.6,
           historical_avg_cents = py_int (historical_mean (latest_data_of features_df cat)),
           historical_spending_avg_cents =
             py_int (historical_spent_mean (latest_data_of features_df cat)),
           trend_direction =
             classify_trend (historical_trend (latest_data_of features_df cat)),
           ml_model_used =
             ''Historical Average (only ''
               @ str_nat (length (category_data_of features_df cat)) @ '' data points)'',
           spending_cluster =
             (case spending_clusters env cat of None \<Rightarrow> ''Unknown'' | Some l \<Rightarrow> l),
           seasonal_pattern =
             (case seasonal_patterns env cat of None \<Rightarrow> ''Unknown'' | Some l \<Rightarrow> l) \<rparr>"
proof -
  let ?n = "length (category_data_of features_df cat)"
  have d: "decision_policy env user_id cat ?n
             (budget_accuracy (latest_data_of features_df cat))
             (predictions_dict_of env features_df cat)
             (historical_mean (latest_data_of features_df cat))
             (historical_spent_mean (latest_data_of features_df cat))
             (category_data_of features_df cat)
           = Inr (decided (historical_mean (latest_data_of features_df cat))
                    (''Historical Average (only '' @ str_nat ?n @ '' data points)'')
                    (base_confidence_of ?n * 0.6))"
    using assms(2) by (simp add: decision_policy_def Let_def)
  show ?thesis
    unfolding predict_category_def Let_def d
    using assms(1) base_confidence_small [OF assms(2)]
    by (simp add: safety_check_def decided_def)
qed

lemma py_int_of_int: "py_int (real_of_int n) = n"
  by (simp add: py_int_def)

lemma mean_singleton: "mean [x] = x"
  by (simp add: mean_def)

text \<open>The lagged mean stored in a feature vector.\<close>

lemma features_for_row_historical_mean:
  assumes "features_for_row cb cs ca r = Inr fv"
  shows "historical_mean fv =
           (if filter (\<lambda>b. period_start b < period_start r) cb \<noteq> []
            then mean (planned_values (filter (\<lambda>b. period_start b < period_start r) cb))
            else real_of_int (planned_cents r))"
  using assms unfolding features_for_row_def Let_def
  by (auto split: sum.splits)

lemma prior_of_latest_short:
  assumes "cb \<noteq> []" and "length cb < 3"
  shows "length (filter (\<lambda>b. period_start b < period_start (last cb)) cb) \<le> 1"
proof -
  have "last cb \<in> set cb" using assms(1) by simp
  then have "length (filter (\<lambda>b. period_start b < period_start (last cb)) cb) < length cb"
    by (intro length_filter_less [of "last cb"]) simp_all
  with assms(2) show ?thesis by simp
qed

lemma mean_planned_short:
  assumes "length rows \<le> 1" and "rows \<noteq> []"
  shows "mean (planned_values rows) = real_of_int (planned_cents (hd rows))"
proof -
  from assms obtain x where "rows = [x]"
    by (cases rows) (auto simp: length_Suc_conv)
  then show ?thesis by (simp add: planned_values_def mean_def)
qed

subsection \<open>The earliest period of a category\<close>

lemma features_for_row_first_period:
  assumes "\<forall>b \<in> set category_budgets. \<not> period_start b < period_start budget_row"
  shows "\<exists>fv. features_for_row category_budgets category_spending category_accounts budget_row
                = Inr fv
           \<and> historical_mean fv = real_of_int (planned_cents budget_row)
           \<and> historical_min fv = real_of_int (planned_cents budget_row)
           \<and> historical_max fv = real_of_int (planned_cents budget_row)
           \<and> recent_mean fv = real_of_int (planned_cents budget_row)
           \<and> historical_combined_mean fv = real_of_int (planned_cents budget_row)
           \<and> historical_std fv = Some 0
           \<and> historical_trend fv = 0
           \<and> recent_trend fv = 0
           \<and> historical_spent_mean fv = 0
           \<and> historical_spent_count fv = 0
           \<and> historical_count fv = 0"
proof -
  from assms have "filter (\<lambda>b. period_start b < period_start budget_row) category_budgets = []"
    by (simp add: filter_empty_conv)
  then show ?thesis
    by (simp add: features_for_row_def historical_spent_values_def Let_def)
qed

lemma single_period_prediction:
  assumes ef: "engineer_features budgets_df spending_df accounts_df = Inr features_df"
    and one: "filter (\<lambda>b. category_id b = cat) budgets_df = [r]"
  shows "\<exists>p. predict_category env user_id features_df cat = Inr p
           \<and> predicted_amount_cents p = planned_cents r
           \<and> ml_model_used p = ''Historical Average (only 1 data points)''"
proof -
  have "r \<in> set (filter (\<lambda>b. category_id b = cat) budgets_df)" by (simp add: one)
  then have mem: "cat \<in> category_id ` set budgets_df" by auto
  have cb: "category_budgets_of budgets_df cat = [r]"
    by (simp add: category_budgets_of_def one)
  note lf = latest_features [OF ef mem]
  have len: "length (category_data_of features_df cat) = 1"
    using lf(2) by (simp add: one)
  from features_for_row_historical_mean [OF lf(1)]
  have hm: "historical_mean (latest_data_of features_df cat) = real_of_int (planned_cents r)"
    by (simp add: cb)
  from insufficient_data_prediction [OF lf(3), of env user_id] len hm
  show ?thesis
    by (simp add: py_int_of_int str_nat.simps)
qed

text \<open>
  Claim C9. For a budget period with no strictly earlier period of its category, the
  feature engineer sets \<open>historical_mean\<close>, \<open>historical_min\<close>, \<open>historical_max\<close>,
  \<open>recent_mean\<close> and \<open>historical_combined_mean\<close> to the period's own planned amount, and
  \<open>historical_std\<close>, \<open>historical_trend\<close>, \<open>recent_trend\<close>, \<open>historical_spent_mean\<close> to 0
  with \<open>historical_count = 0\<close>. Hence for a category with exactly one budget period the
  insufficient-data prediction is that period's planned amount.
\<close>

theorem first_period_defaults:
  "((\<forall>b \<in> set category_budgets. \<not> period_start b < period_start budget_row) \<longrightarrow>
      (\<exists>fv. features_for_row category_budgets category_spending category_accounts budget_row
               = Inr fv
          \<and> historical_mean fv = real_of_int (planned_cents budget_row)
          \<and> historical_min fv = real_of_int (planned_cents budget_row)
          \<and> historical_max fv = real_of_int (planned_cents budget_row)
          \<and> recent_mean fv = real_of_int (planned_cents budget_row)
          \<and> historical_combined_mean fv = real_of_int (planned_cents budget_row)
          \<and> historical_std fv = Some 0
          \<and> historical_trend fv = 0
          \<and> recent_trend fv = 0
          \<and> historical_spent_mean fv = 0
          \<and> historical_spent_count fv = 0
          \<and> historical_count fv = 0))
   \<and> (engineer_features budgets_df spending_df accounts_df = Inr features_df
        \<and> filter (\<lambda>b. category_id b = cat) budgets_df = [r] \<longrightarrow>
      (\<exists>p. predict_category env user_id features_df cat = Inr p
          \<and> predicted_amount_cents p = planned_cents r
          \<and> ml_model_used p = ''Historical Average (only 1 data points)''))"
  using features_for_row_first_period single_period_prediction by blast

theorem first_period_defaults_witness:
  "filter (\<lambda>b. period_start b < period_start (example_budget 2 ''Rent'' 0 90000)) single_rent
     = []
   \<and> (\<exists>fv. features_for_row single_rent None [] (example_budget 2 ''Rent'' 0 90000) = Inr fv
          \<and> historical_mean fv = 90000 \<and> historical_std fv = Some 0
          \<and> historical_count fv = 0)
   \<and> (\<exists>features_df p.
          engineer_features single_rent [] [] = Inr features_df
          \<and> filter (\<lambda>b. category_id b = 2) single_rent = [example_budget 2 ''Rent'' 0 90000]
          \<and> predict_category (example_env [] Map.empty []) 1 features_df 2 = Inr p
          \<and> predicted_amount_cents p = 90000)"
proof -
  let ?r = "example_budget 2 ''Rent'' 0 90000"
  have h1: "\<forall>b \<in> set single_rent. \<not> period_start b < period_start ?r"
    by (simp add: single_rent_def)
  from single_rent_features obtain fs where
    ef: "engineer_features single_rent [] [] = Inr fs" by blast
  have h2: "filter (\<lambda>b. category_id b = 2) single_rent = [?r]"
    by (simp add: single_rent_def example_defs)
  have pl: "planned_cents ?r = 90000" by (simp add: example_defs)
  note w = first_period_defaults [where category_budgets = single_rent and budget_row = ?r
      and category_spending = None and category_accounts = "[]"
      and budgets_df = single_rent and spending_df = "[]" and accounts_df = "[]"
      and features_df = fs and cat = 2 and r = ?r
      and env = "example_env [] Map.empty []" and user_id = 1]
  from w h1 have "\<exists>fv. features_for_row single_rent None [] ?r = Inr fv
          \<and> historical_mean fv = 90000 \<and> historical_std fv = Some 0
          \<and> historical_count fv = 0"
    unfolding pl by auto
  moreover from w ef h2 have "\<exists>p. predict_category (example_env [] Map.empty []) 1 fs 2 = Inr p
          \<and> predicted_amount_cents p = 90000"
    unfolding pl by auto
  moreover have "filter (\<lambda>b. period_start b < period_start ?r) single_rent = []"
    by (simp add: single_rent_def)
  ultimately show ?thesis using ef h2 by blast
qed

subsection \<open>The accurate-budgeter branch\<close>

lemma accurate_features:
  "\<exists>fs. engineer_features accurate_budgets accurate_spending [] = Inr fs
         \<and> length fs = 5
         \<and> length (category_data_of fs 1) = 5
         \<and> historical_mean (latest_data_of fs 1) = 10000
         \<and> historical_spent_mean (latest_data_of fs 1) = 9980
         \<and> budget_accuracy (latest_data_of fs 1) = 0.998"
  by (simp add: accurate_budgets_def accurate_spending_def engineer_defs example_defs
      category_data_of_def latest_data_of_def Let_def)

lemma accurate_budgeter_decision:
  assumes "3 \<le> data_points" and "0.2 \<le> accuracy" and "predictions_dict \<noteq> []"
    and "s > 0" and "\<bar>s / b - 1\<bar> < 0.02"
  shows "decision_policy env user_id cat data_points accuracy predictions_dict b s category_data
           = Inr (decided (max b (s * 1.02)) ''Accurate Budgeter (spending  budget)''
                    (base_confidence_of data_points * accuracy_factor_of accuracy
                       * model_agreement_of predictions_dict * 0.92))"
proof -
  from assms(5) have "b \<noteq> 0" by auto
  with assms show ?thesis
    by (simp add: decision_policy_def accurate_budgeter_check_def py_div_def Let_def)
qed

text \<open>
  Claim C2, amended. For a category with at least three data points and a budget accuracy
  of at least 0.2, when a model prediction exists, the historical spending average is
  positive and \<open>\<bar>spending / budget - 1\<bar> < 0.02\<close>, the accurate-budgeter branch fires: the
  predicted amount is \<open>max budget (spending * 1.02)\<close>, truncated to whole cents, the
  confidence is \<open>base * accuracy_factor * model_agreement * 0.92\<close> clamped to the interval
  from 0.1 to 0.95, and the label is \<open>Accurate Budgeter (spending  budget)\<close>. For a budget
  average of 10000 cents and a spending average of 9980 cents the amount is 10179.6, stored
  as 10179 cents.
\<close>

theorem accurate_budgeter_branch:
  assumes "3 \<le> length (category_data_of features_df cat)"
    and "0.2 \<le> budget_accuracy (latest_data_of features_df cat)"
    and "predictions_dict_of env features_df cat \<noteq> []"
    and "historical_spent_mean (latest_data_of features_df cat) > 0"
    and "\<bar>historical_spent_mean (latest_data_of features_df cat)
            / historical_mean (latest_data_of features_df cat) - 1\<bar> < 0.02"
  shows "\<exists>p. predict_category env user_id features_df cat = Inr p
           \<and> predicted_amount_cents p
               = py_int (max (historical_mean (latest_data_of features_df cat))
                           (historical_spent_mean (latest_data_of features_df cat) * 1.02))
           \<and> confidence_score p
               = clamp_confidence
                   (base_confidence_of (length (category_data_of features_df cat))
                      * accuracy_factor_of (budget_accuracy (latest_data_of features_df cat))
                      * model_agreement_of (predictions_dict_of env features_df cat) * 0.92)
           \<and> ml_model_used p = ''Accurate Budgeter (spending  budget)''"
proof -
  from assms(1) have ne: "category_data_of features_df cat \<noteq> []" by auto
  show ?thesis
    unfolding predict_category_def Let_def
      accurate_budgeter_decision [OF assms, of env user_id cat "category_data_of features_df cat"]
    using ne by (simp add: safety_check_def decided_def)
qed

theorem accurate_budgeter_branch_witness:
  "\<exists>fs p. engineer_features accurate_budgets accurate_spending [] = Inr fs
     \<and> 3 \<le> length (category_data_of fs 1)
     \<and> 0.2 \<le> budget_accuracy (latest_data_of fs 1)
     \<and> predictions_dict_of accurate_env fs 1 \<noteq> []
     \<and> historical_spent_mean (latest_data_of fs 1) > 0
     \<and> \<bar>historical_spent_mean (latest_data_of fs 1) / historical_mean (latest_data_of fs 1) - 1\<bar>
         < 0.02
     \<and> predict_category accurate_env 1 fs 1 = Inr p
     \<and> predicted_amount_cents p = 10179
     \<and> confidence_score p = 0.7728
     \<and> ml_model_used p = ''Accurate Budgeter (spending  budget)''"
proof -
  from accurate_features obtain fs where
    ef: "engineer_features accurate_budgets accurate_spending [] = Inr fs"
    and n: "length fs = 5" "length (category_data_of fs 1) = 5"
    and b: "historical_mean (latest_data_of fs 1) = 10000"
    and s: "historical_spent_mean (latest_data_of fs 1) = 9980"
    and a: "budget_accuracy (latest_data_of fs 1) = 0.998"
    by blast
  have preds: "predictions_dict_of accurate_env fs 1 = [10000, 10000]"
    by (simp add: predictions_dict_of_def accurate_env_def example_env_def n)
  have h1: "3 \<le> length (category_data_of fs 1)" by (simp add: n)
  have h2: "0.2 \<le> budget_accuracy (latest_data_of fs 1)" by (simp add: a)
  have h3: "predictions_dict_of accurate_env fs 1 \<noteq> []" by (simp add: preds)
  have h4: "historical_spent_mean (latest_data_of fs 1) > 0" by (simp add: s)
  have h5: "\<bar>historical_spent_mean (latest_data_of fs 1)
              / historical_mean (latest_data_of fs 1) - 1\<bar> < 0.02"
    by (simp add: s b)
  from accurate_budgeter_branch [OF h1 h2 h3 h4 h5, of 1] obtain p where
    p: "predict_category accurate_env 1 fs 1 = Inr p"
    and amt: "predicted_amount_cents p = py_int (max 10000 (9980 * 1.02))"
    and conf: "confidence_score p
       = clamp_confidence (base_confidence_of 5 * accuracy_factor_of 0.998
           * model_agreement_of [10000, 10000] * 0.92)"
    and lbl: "ml_model_used p = ''Accurate Budgeter (spending  budget)''"
    unfolding n b s a preds by blast
  have "py_int (max 10000 (9980 * 1.02)) = 10179"
    by (simp add: py_int_def)
  with amt have amt': "predicted_amount_cents p = 10179" by simp
  have "clamp_confidence (base_confidence_of 5 * accuracy_factor_of 0.998
           * model_agreement_of [10000, 10000] * 0.92) = 0.7728"
    by (simp add: clamp_confidence_def base_confidence_of_def accuracy_factor_of_def
        model_agreement_of_def np_std_def mean_def)
  with conf have conf': "confidence_score p = 0.7728" by simp
  from ef h1 h2 h3 h4 h5 p amt' conf' lbl show ?thesis by blast
qed

text \<open>
  Claim C2 as stated fails. With a budget average of 10000 cents and a spending average of
  9980 cents the branch yields \<open>max 10000 (9980 * 1.02) = 10179.6\<close>, returned as 10179
  cents, not 10180. And the two earlier branches win over it: with two data points, or
  with an accuracy of 0.1, the same averages give the plain historical average.
\<close>

theorem accurate_budgeter_counterexample:
  "map predicted_amount_cents
     (predict_with_ml accurate_env 1 accurate_budgets accurate_spending []) = [10179]
   \<and> map ml_model_used
       (predict_with_ml accurate_env 1 accurate_budgets accurate_spending [])
       = [''Accurate Budgeter (spending  budget)'']
   \<and> decision_policy accurate_env 1 1 5 0.998 [10000, 10000] 10000 9980 []
       = Inr (decided 10179.6 ''Accurate Budgeter (spending  budget)'' 0.7728)
   \<and> decision_policy accurate_env 1 1 2 0.998 [10000, 10000] 10000 9980 []
       = Inr (decided 10000 ''Historical Average (only 2 data points)'' 0.276)
   \<and> decision_policy accurate_env 1 1 5 0.1 [10000, 10000] 10000 9980 []
       = Inr (decided 10000 ''Historical Average (very low accuracy)'' 0.392)"
  by (simp add: accurate_budgets_def accurate_spending_def accurate_env_def engineer_defs
      policy_defs example_defs Let_def)

subsection \<open>The peer branch\<close>

text \<open>
  Claim C1. A category that reaches the peer branch without usable peer data should be
  decided by the branches that follow. The code does not continue: the peer branch is
  one arm of the \<^verbatim>\<open>elif\<close> chain, so after it leaves the variables at \<^verbatim>\<open>None\<close> no later
  branch is evaluated and the safety check supplies the plain historical average. Here
  the category has three data points, neutral accuracy 0.5, two model predictions of 2000
  and a historical average of 1000; the user is clustered and the peers have no data.
  The result is the fallback (1000 cents, confidence 0.324), while the neutral-accuracy
  branch would give 1100 cents with confidence 0.378. No value of another category is
  reused.
\<close>

theorem peer_branch_no_fallthrough:
  "map ml_model_used
     (predict_with_ml peer_example_env 1 peer_example_budgets peer_example_spending [])
     = [''Fallback Historical Average'', ''Historical Average (only 2 data points)'']
   \<and> map predicted_amount_cents
       (predict_with_ml peer_example_env 1 peer_example_budgets peer_example_spending [])
       = [1000, 90000]
   \<and> map confidence_score
       (predict_with_ml peer_example_env 1 peer_example_budgets peer_example_spending [])
       = [0.324, 0.276]
   \<and> get_peer_recommendations (peer_budgets_db peer_example_env) 1 1
         (user_clusters peer_example_env) 6 = None
   \<and> decision_policy peer_example_env 1 1 3 0.5 [2000, 2000] 1000 0 [] = Inr (None, None, None)
   \<and> later_branches 3 0.5 [2000, 2000] 1000 0 []
       = Inr (decided 1100 ''Conservative Historical (ML too extreme, neutral accuracy)''
                0.378)"
  by (simp add: peer_example_budgets_def peer_example_spending_def peer_example_env_def
      example_clusters_def engineer_defs policy_defs example_defs Let_def)

subsection \<open>One handler for the whole loop\<close>

lemma engineered_categories:
  assumes "engineer_features budgets_df spending_df accounts_df = Inr features_df"
  shows "f_category_id ` set features_df = category_id ` set budgets_df"
proof
  show "f_category_id ` set features_df \<subseteq> category_id ` set budgets_df"
  proof
    fix c assume "c \<in> f_category_id ` set features_df"
    then obtain fv where fv: "fv \<in> set features_df" "c = f_category_id fv" by auto
    from engineer_features_elem [OF assms fv(1)] fv(2)
    show "c \<in> category_id ` set budgets_df"
      by (auto dest: features_for_row_category)
  qed
  show "category_id ` set budgets_df \<subseteq> f_category_id ` set features_df"
  proof
    fix c assume c: "c \<in> category_id ` set budgets_df"
    from latest_features(3) [OF assms c] obtain fv where
      "fv \<in> set (category_data_of features_df c)"
      by (cases "category_data_of features_df c") auto
    then show "c \<in> f_category_id ` set features_df"
      by (auto simp: category_data_of_def)
  qed
qed









subsection \<open>The peer recommendation resolver\<close>












subsection \<open>Budget accuracy\<close>

text \<open>The in-period spending that \<^verbatim>\<open>engineer_features\<close> stores as \<open>actual_spent\<close>.\<close>

lemma features_for_row_accuracy:
  assumes "features_for_row cb cs ca r = Inr fv"
  shows "budget_accuracy fv = budget_accuracy_of cs r"
    and "target_amount fv = real_of_int (planned_cents r)"
    and "actual_spent fv =
           (let period_spending =
                  filter (in_period (period_start r) (period_end r))
                    (case cs of None \<Rightarrow> [] | Some rows \<Rightarrow> rows)
            in if period_spending = [] then 0 else spent_sum period_spending)"
  using assms unfolding features_for_row_def Let_def
  by (auto split: sum.splits)

lemma accuracy_formula_range:
  fixes p a :: real
  assumes "0 \<le> p" and "0 < a"
  shows "0 \<le> 1 - \<bar>p - a\<bar> / max p a" and "1 - \<bar>p - a\<bar> / max p a \<le> 1"
proof -
  have m: "0 < max p a" using assms by simp
  have "\<bar>p - a\<bar> \<le> max p a" using assms by (simp add: abs_le_iff max_def)
  then have "\<bar>p - a\<bar> / max p a \<le> 1" using m by simp
  then show "0 \<le> 1 - \<bar>p - a\<bar> / max p a" by simp
  have "0 \<le> \<bar>p - a\<bar> / max p a" using m by simp
  then show "1 - \<bar>p - a\<bar> / max p a \<le> 1" by simp
qed

lemma accuracy_formula_exact:
  fixes p a :: real
  assumes "0 < a" and "1 - \<bar>p - a\<bar> / max p a = 1"
  shows "p = a"
proof -
  have m: "0 < max p a" using assms(1) by simp
  from assms(2) have "\<bar>p - a\<bar> / max p a = 0" by simp
  with m have "\<bar>p - a\<bar> = 0" by simp
  then show ?thesis by simp
qed

lemma budget_accuracy_of_cases:
  fixes cs r
  defines "rows \<equiv> (case cs of None \<Rightarrow> [] | Some rows \<Rightarrow> rows)"
  defines "actual \<equiv>
     (let period_spending = filter (in_period (period_start r) (period_end r)) rows
      in if period_spending = [] then 0 else spent_sum period_spending)"
  shows "budget_accuracy_of cs r =
           (if actual > 0
            then 1 - \<bar>real_of_int (planned_cents r) - actual\<bar>
                       / max (real_of_int (planned_cents r)) actual
            else if spent_sum rows > 0 then 0.7 else 0.5)"
  unfolding budget_accuracy_of_def rows_def actual_def Let_def
  by (auto split: option.splits simp: spent_sum_def)

lemma category_spending_rows:
  "(case category_spending_of spending_df c of None \<Rightarrow> [] | Some rows \<Rightarrow> rows)
     = filter (\<lambda>s. sp_category_id s = c) spending_df"
  by (simp add: category_spending_of_def)

text \<open>
  Claim C5, amended. For every engineered feature vector whose planned amount is not
  negative, \<open>budget_accuracy\<close> lies between 0 and 1. For every engineered feature vector,
  it equals 1 exactly when the planned amount equals the spending of the period and that
  spending is positive; it is 0.5 when the period has no spending and the category has
  none in the whole window; it is 0.7 when the period has no spending and the category
  has some elsewhere in the window.
\<close>

theorem budget_accuracy_properties:
  assumes "engineer_features budgets_df spending_df accounts_df = Inr features_df"
    and "fv \<in> set features_df"
  shows "(0 \<le> target_amount fv \<longrightarrow> 0 \<le> budget_accuracy fv \<and> budget_accuracy fv \<le> 1)
       \<and> (budget_accuracy fv = 1
            \<longleftrightarrow> target_amount fv = actual_spent fv \<and> actual_spent fv > 0)
       \<and> (actual_spent fv = 0
            \<and> spent_sum (filter (\<lambda>s. sp_category_id s = f_category_id fv) spending_df) = 0
          \<longrightarrow> budget_accuracy fv = 0.5)
       \<and> (actual_spent fv = 0
            \<and> spent_sum (filter (\<lambda>s. sp_category_id s = f_category_id fv) spending_df) > 0
          \<longrightarrow> budget_accuracy fv = 0.7)"
proof -
  from engineer_features_elem [OF assms] obtain r where
    r: "features_for_row (category_budgets_of budgets_df (category_id r))
          (category_spending_of spending_df (category_id r))
          (category_accounts_of accounts_df (category_id r)) r = Inr fv"
    by blast
  let ?cs = "category_spending_of spending_df (category_id r)"
  let ?rows = "filter (\<lambda>s. sp_category_id s = f_category_id fv) spending_df"
  let ?p = "real_of_int (planned_cents r)"
  have cat: "f_category_id fv = category_id r"
    using features_for_row_category [OF r] .
  have rows: "(case ?cs of None \<Rightarrow> [] | Some rows \<Rightarrow> rows) = ?rows"
    by (simp add: category_spending_rows cat)
  note f = features_for_row_accuracy [OF r]
  have acc: "budget_accuracy fv =
      (if actual_spent fv > 0
       then 1 - \<bar>?p - actual_spent fv\<bar> / max ?p (actual_spent fv)
       else if spent_sum ?rows > 0 then 0.7 else 0.5)"
    unfolding f(1) f(3) budget_accuracy_of_cases rows ..
  have tgt: "target_amount fv = ?p" by (rule f(2))
  have range: "0 \<le> target_amount fv \<longrightarrow> 0 \<le> budget_accuracy fv \<and> budget_accuracy fv \<le> 1"
  proof
    assume "0 \<le> target_amount fv"
    then have p: "0 \<le> ?p" by (simp add: tgt)
    show "0 \<le> budget_accuracy fv \<and> budget_accuracy fv \<le> 1"
    proof (cases "actual_spent fv > 0")
      case True
      with accuracy_formula_range [OF p True] acc show ?thesis by simp
    next
      case False
      with acc show ?thesis by simp
    qed
  qed
  have exact: "budget_accuracy fv = 1
      \<longleftrightarrow> target_amount fv = actual_spent fv \<and> actual_spent fv > 0"
  proof
    assume one: "budget_accuracy fv = 1"
    have pos: "actual_spent fv > 0"
    proof (rule ccontr)
      assume "\<not> actual_spent fv > 0"
      with acc one show False by (simp split: if_splits)
    qed
    with acc one have "1 - \<bar>?p - actual_spent fv\<bar> / max ?p (actual_spent fv) = 1" by simp
    from accuracy_formula_exact [OF pos this] pos tgt
    show "target_amount fv = actual_spent fv \<and> actual_spent fv > 0" by simp
  next
    assume "target_amount fv = actual_spent fv \<and> actual_spent fv > 0"
    with acc tgt show "budget_accuracy fv = 1" by simp
  qed
  from acc have neutral: "actual_spent fv = 0 \<and> spent_sum ?rows = 0
      \<longrightarrow> budget_accuracy fv = 0.5" by simp
  from acc have partial: "actual_spent fv = 0 \<and> spent_sum ?rows > 0
      \<longrightarrow> budget_accuracy fv = 0.7" by simp
  from range exact neutral partial show ?thesis by blast
qed

lemma exact_features:
  "\<exists>fs. engineer_features exact_budgets exact_spending [] = Inr fs
         \<and> length fs = 2
         \<and> target_amount (fs ! 0) = 2500 \<and> actual_spent (fs ! 0) = 2500
         \<and> f_category_id (fs ! 0) = 1
         \<and> actual_spent (fs ! 1) = 0 \<and> f_category_id (fs ! 1) = 1"
  by (simp add: exact_budgets_def exact_spending_def engineer_defs example_defs Let_def)

lemma single_rent_spending:
  "\<exists>fs. engineer_features single_rent [] [] = Inr fs \<and> length fs = 1
         \<and> actual_spent (fs ! 0) = 0 \<and> target_amount (fs ! 0) = 90000"
  by (simp add: single_rent_def engineer_defs example_defs Let_def)

theorem budget_accuracy_properties_witness:
  "(\<exists>fs. engineer_features exact_budgets exact_spending [] = Inr fs
      \<and> fs ! 0 \<in> set fs \<and> fs ! 1 \<in> set fs
      \<and> 0 \<le> target_amount (fs ! 0)
      \<and> 0 \<le> budget_accuracy (fs ! 0) \<and> budget_accuracy (fs ! 0) \<le> 1
      \<and> target_amount (fs ! 0) = actual_spent (fs ! 0) \<and> actual_spent (fs ! 0) > 0
      \<and> budget_accuracy (fs ! 0) = 1
      \<and> actual_spent (fs ! 1) = 0
      \<and> spent_sum (filter (\<lambda>s. sp_category_id s = f_category_id (fs ! 1)) exact_spending) > 0
      \<and> budget_accuracy (fs ! 1) = 0.7)
   \<and> (\<exists>gs. engineer_features single_rent [] [] = Inr gs
      \<and> gs ! 0 \<in> set gs
      \<and> actual_spent (gs ! 0) = 0
      \<and> spent_sum (filter (\<lambda>s. sp_category_id s = f_category_id (gs ! 0)) []) = 0
      \<and> budget_accuracy (gs ! 0) = 0.5)"
proof -
  from exact_features obtain fs where
    ef: "engineer_features exact_budgets exact_spending [] = Inr fs"
    and len: "length fs = 2"
    and f0: "target_amount (fs ! 0) = 2500" "actual_spent (fs ! 0) = 2500"
    and f1: "actual_spent (fs ! 1) = 0" "f_category_id (fs ! 1) = 1"
    by blast
  from len have m0: "fs ! 0 \<in> set fs" and m1: "fs ! 1 \<in> set fs" by simp_all
  have tot: "spent_sum (filter (\<lambda>s. sp_category_id s = f_category_id (fs ! 1)) exact_spending)
      > 0"
    unfolding f1(2) by (simp add: exact_spending_def example_spending_def spent_sum_def)
  note w0 = budget_accuracy_properties [OF ef m0]
  note w1 = budget_accuracy_properties [OF ef m1]
  from w0 f0 have a0: "0 \<le> budget_accuracy (fs ! 0)" "budget_accuracy (fs ! 0) \<le> 1"
    "budget_accuracy (fs ! 0) = 1"
    by simp_all
  from w1 f1(1) tot have a1: "budget_accuracy (fs ! 1) = 0.7" by blast
  have first: "\<exists>fs. engineer_features exact_budgets exact_spending [] = Inr fs
      \<and> fs ! 0 \<in> set fs \<and> fs ! 1 \<in> set fs
      \<and> 0 \<le> target_amount (fs ! 0)
      \<and> 0 \<le> budget_accuracy (fs ! 0) \<and> budget_accuracy (fs ! 0) \<le> 1
      \<and> target_amount (fs ! 0) = actual_spent (fs ! 0) \<and> actual_spent (fs ! 0) > 0
      \<and> budget_accuracy (fs ! 0) = 1
      \<and> actual_spent (fs ! 1) = 0
      \<and> spent_sum (filter (\<lambda>s. sp_category_id s = f_category_id (fs ! 1)) exact_spending) > 0
      \<and> budget_accuracy (fs ! 1) = 0.7"
    using ef m0 m1 f0 f1(1) tot a0 a1 by (intro exI [of _ fs]) simp
  from single_rent_spending obtain gs where
    eg: "engineer_features single_rent [] [] = Inr gs"
    and glen: "length gs = 1"
    and g0: "actual_spent (gs ! 0) = 0"
    by blast
  from glen have n0: "gs ! 0 \<in> set gs" by simp
  have gtot: "spent_sum (filter (\<lambda>s. sp_category_id s = f_category_id (gs ! 0)) []) = 0"
    by (simp add: spent_sum_def)
  from budget_accuracy_properties [OF eg n0] g0 gtot
  have "budget_accuracy (gs ! 0) = 0.5" by blast
  with eg n0 g0 gtot have second: "\<exists>gs. engineer_features single_rent [] [] = Inr gs
      \<and> gs ! 0 \<in> set gs
      \<and> actual_spent (gs ! 0) = 0
      \<and> spent_sum (filter (\<lambda>s. sp_category_id s = f_category_id (gs ! 0)) []) = 0
      \<and> budget_accuracy (gs ! 0) = 0.5"
    by blast
  from first second show ?thesis by blast
qed

text \<open>
  Claim C5 as stated fails on a negative planned amount: with -1000 cents planned and
  1000 cents spent in the period the accuracy is \<open>1 - 2000 / 1000 = -1\<close>.
\<close>

theorem budget_accuracy_counterexample:
  "map_sum id (map budget_accuracy)
     (engineer_features negative_plan_budgets negative_plan_spending []) = Inr [- 1]
   \<and> map_sum id (map target_amount)
       (engineer_features negative_plan_budgets negative_plan_spending []) = Inr [- 1000]
   \<and> map_sum id (map actual_spent)
       (engineer_features negative_plan_budgets negative_plan_spending []) = Inr [1000]"
  by (simp add: negative_plan_budgets_def negative_plan_spending_def engineer_defs
      example_defs Let_def)

subsection \<open>Which data a feature vector reads\<close>

lemma historical_budgets_of:
  "filter (\<lambda>b. period_start b < P) (category_budgets_of budgets_df c)
     = sort_key period_start (filter (\<lambda>b. category_id b = c \<and> period_start b < P) budgets_df)"
proof -
  have "filter (\<lambda>b. period_start b < P) (filter (\<lambda>b. category_id b = c) budgets_df)
      = filter (\<lambda>b. category_id b = c \<and> period_start b < P) budgets_df"
    by (simp add: conj_commute)
  then show ?thesis
    by (simp add: category_budgets_of_def filter_sort)
qed

lemma features_for_row_lagged:
  assumes "features_for_row cb cs ca r = Inr fv"
    and "filter (\<lambda>b. period_start b < period_start r) cb = H" and "H \<noteq> []"
  shows "\<exists>sv. historical_spent_values cs H = Inr sv
           \<and> historical_mean fv = mean (planned_values H)
           \<and> historical_std fv = pd_std (planned_values H)
           \<and> historical_min fv = pd_min (planned_values H)
           \<and> historical_max fv = pd_max (planned_values H)
           \<and> historical_trend fv = calculate_trend (planned_values H)
           \<and> historical_count fv = length H
           \<and> recent_mean fv = mean (planned_values (tail3 H))
           \<and> recent_trend fv
               = (if length (planned_values (tail3 H)) > 1
                  then calculate_trend (planned_values (tail3 H)) else 0)
           \<and> historical_spent_mean fv = (if sv \<noteq> [] then mean sv else 0)
           \<and> historical_spent_count fv = length sv
           \<and> historical_combined_mean fv
               = (if sv \<noteq> [] then 0.7 * mean sv + 0.3 * mean (planned_values H)
                  else mean (planned_values H))"
proof (cases "historical_spent_values cs H")
  case (Inl e)
  with assms(1,2) show ?thesis
    by (simp add: features_for_row_def Let_def)
next
  case (Inr sv)
  with assms have "fv = projr (features_for_row cb cs ca r)" by simp
  with Inr assms(2,3) show ?thesis
    by (simp add: features_for_row_def Let_def)
qed

lemma in_period_before:
  assumes "finish < P"
  shows "filter (in_period start finish) rows
           = filter (in_period start finish) (filter (\<lambda>s. txn_date s < P) rows)"
  using assms by (induction rows) (simp_all add: in_period_def)

lemma map_filter_cong:
  "(\<And>x. x \<in> set xs \<Longrightarrow> f x = g x) \<Longrightarrow> List.map_filter f xs = List.map_filter g xs"
  by (induction xs) (auto simp: map_filter_simps split: option.splits)

lemma historical_spent_values_before:
  assumes "\<forall>b \<in> set H. period_end b < P"
    and "filter (\<lambda>s. txn_date s < P) rows1 = filter (\<lambda>s. txn_date s < P) rows2"
  shows "historical_spent_values (Some rows1) H = historical_spent_values (Some rows2) H"
proof -
  have same: "\<And>b. b \<in> set H \<Longrightarrow>
      filter (in_period (period_start b) (period_end b)) rows1
        = filter (in_period (period_start b) (period_end b)) rows2"
  proof -
    fix b assume "b \<in> set H"
    with assms(1) have e: "period_end b < P" by blast
    show "filter (in_period (period_start b) (period_end b)) rows1
        = filter (in_period (period_start b) (period_end b)) rows2"
      using in_period_before [OF e, of "period_start b" rows1]
        in_period_before [OF e, of "period_start b" rows2] assms(2)
      by simp
  qed
  have "List.map_filter
          (\<lambda>past_row.
             let period_spent =
                   filter (in_period (period_start past_row) (period_end past_row)) rows1
             in if period_spent = [] then None else Some (spent_sum period_spent)) H
      = List.map_filter
          (\<lambda>past_row.
             let period_spent =
                   filter (in_period (period_start past_row) (period_end past_row)) rows2
             in if period_spent = [] then None else Some (spent_sum period_spent)) H"
    by (rule map_filter_cong) (simp add: same)
  then show ?thesis
    by (simp add: historical_spent_values_def)
qed

text \<open>
  Claim C7, amended. Take two inputs that agree, for a category, on the budget rows that
  start strictly before \<open>P\<close> and on the transactions dated strictly before \<open>P\<close>, where at
  least one such budget row exists and every one of them ends before \<open>P\<close>. Then the lagged
  fields of the feature vector for the period starting at \<open>P\<close> are identical in both runs:
  \<open>historical_mean\<close>, \<open>historical_std\<close>, \<open>historical_min\<close>, \<open>historical_max\<close>,
  \<open>historical_trend\<close>, \<open>historical_count\<close>, \<open>recent_mean\<close>, \<open>recent_trend\<close>,
  \<open>historical_spent_mean\<close>, \<open>historical_spent_count\<close> and \<open>historical_combined_mean\<close>. The
  other fields describe the period itself and read its own data.
\<close>

theorem lagged_fields_noninterference:
  assumes same_budgets:
      "filter (\<lambda>b. category_id b = c \<and> period_start b < P) budgets1
         = filter (\<lambda>b. category_id b = c \<and> period_start b < P) budgets2"
    and same_spending:
      "filter (\<lambda>s. sp_category_id s = c \<and> txn_date s < P) spending1
         = filter (\<lambda>s. sp_category_id s = c \<and> txn_date s < P) spending2"
    and earlier: "filter (\<lambda>b. category_id b = c \<and> period_start b < P) budgets1 \<noteq> []"
    and ends: "\<forall>b \<in> set budgets1. category_id b = c \<and> period_start b < P \<longrightarrow> period_end b < P"
    and r1: "period_start r1 = P" and r2: "period_start r2 = P"
    and f1: "features_for_row (category_budgets_of budgets1 c)
               (category_spending_of spending1 c) (category_accounts_of accounts1 c) r1
             = Inr fv1"
    and f2: "features_for_row (category_budgets_of budgets2 c)
               (category_spending_of spending2 c) (category_accounts_of accounts2 c) r2
             = Inr fv2"
  shows "historical_mean fv1 = historical_mean fv2
       \<and> historical_std fv1 = historical_std fv2
       \<and> historical_min fv1 = historical_min fv2
       \<and> historical_max fv1 = historical_max fv2
       \<and> historical_trend fv1 = historical_trend fv2
       \<and> historical_count fv1 = historical_count fv2
       \<and> recent_mean fv1 = recent_mean fv2
       \<and> recent_trend fv1 = recent_trend fv2
       \<and> historical_spent_mean fv1 = historical_spent_mean fv2
       \<and> historical_spent_count fv1 = historical_spent_count fv2
       \<and> historical_combined_mean fv1 = historical_combined_mean fv2"
proof -
  define H where
    "H = sort_key period_start
           (filter (\<lambda>b. category_id b = c \<and> period_start b < P) budgets1)"
  have H1: "filter (\<lambda>b. period_start b < period_start r1) (category_budgets_of budgets1 c) = H"
    by (simp add: historical_budgets_of r1 H_def)
  have H2: "filter (\<lambda>b. period_start b < period_start r2) (category_budgets_of budgets2 c) = H"
    by (simp add: historical_budgets_of r2 H_def same_budgets)
  have ne: "H \<noteq> []"
  proof
    assume "H = []"
    then have "set H = {}" by simp
    then have "set (filter (\<lambda>b. category_id b = c \<and> period_start b < P) budgets1) = {}"
      by (simp add: H_def)
    with earlier show False by simp
  qed
  from features_for_row_lagged [OF f1 H1 ne] obtain sv1 where
    sv1: "historical_spent_values (category_spending_of spending1 c) H = Inr sv1"
    and l1: "historical_mean fv1 = mean (planned_values H)"
      "historical_std fv1 = pd_std (planned_values H)"
      "historical_min fv1 = pd_min (planned_values H)"
      "historical_max fv1 = pd_max (planned_values H)"
      "historical_trend fv1 = calculate_trend (planned_values H)"
      "historical_count fv1 = length H"
      "recent_mean fv1 = mean (planned_values (tail3 H))"
      "recent_trend fv1
         = (if length (planned_values (tail3 H)) > 1
            then calculate_trend (planned_values (tail3 H)) else 0)"
      "historical_spent_mean fv1 = (if sv1 \<noteq> [] then mean sv1 else 0)"
      "historical_spent_count fv1 = length sv1"
      "historical_combined_mean fv1
         = (if sv1 \<noteq> [] then 0.7 * mean sv1 + 0.3 * mean (planned_values H)
            else mean (planned_values H))"
    by blast
  from features_for_row_lagged [OF f2 H2 ne] obtain sv2 where
    sv2: "historical_spent_values (category_spending_of spending2 c) H = Inr sv2"
    and l2: "historical_mean fv2 = mean (planned_values H)"
      "historical_std fv2 = pd_std (planned_values H)"
      "historical_min fv2 = pd_min (planned_values H)"
      "historical_max fv2 = pd_max (planned_values H)"
      "historical_trend fv2 = calculate_trend (planned_values H)"
      "historical_count fv2 = length H"
      "recent_mean fv2 = mean (planned_values (tail3 H))"
      "recent_trend fv2
         = (if length (planned_values (tail3 H)) > 1
            then calculate_trend (planned_values (tail3 H)) else 0)"
      "historical_spent_mean fv2 = (if sv2 \<noteq> [] then mean sv2 else 0)"
      "historical_spent_count fv2 = length sv2"
      "historical_combined_mean fv2
         = (if sv2 \<noteq> [] then 0.7 * mean sv2 + 0.3 * mean (planned_values H)
            else mean (planned_values H))"
    by blast
  from sv1 ne obtain rows1 where c1: "category_spending_of spending1 c = Some rows1"
    by (cases "category_spending_of spending1 c") (simp_all add: historical_spent_values_def)
  from sv2 ne obtain rows2 where c2: "category_spending_of spending2 c = Some rows2"
    by (cases "category_spending_of spending2 c") (simp_all add: historical_spent_values_def)
  from c1 have rows1: "rows1 = filter (\<lambda>s. sp_category_id s = c) spending1"
    by (simp add: category_spending_of_def split: if_splits)
  from c2 have rows2: "rows2 = filter (\<lambda>s. sp_category_id s = c) spending2"
    by (simp add: category_spending_of_def split: if_splits)
  have before: "filter (\<lambda>s. txn_date s < P) rows1 = filter (\<lambda>s. txn_date s < P) rows2"
    using same_spending by (simp add: rows1 rows2 conj_commute)
  have "\<forall>b \<in> set H. period_end b < P"
    using ends by (auto simp: H_def)
  from historical_spent_values_before [OF this before] sv1 sv2 c1 c2
  have "sv1 = sv2" by simp
  with l1 l2 show ?thesis by simp
qed

lemma window_vectors:
  "(\<exists>fv. features_for_row (category_budgets_of exact_budgets 1)
            (category_spending_of exact_spending 1) (category_accounts_of [] 1)
            (example_budget 1 ''Food'' 1 2500) = Inr fv
         \<and> target_amount fv = 2500 \<and> actual_spent fv = 0)
   \<and> (\<exists>fv. features_for_row (category_budgets_of window_budgets_changed 1)
            (category_spending_of window_spending_after 1) (category_accounts_of [] 1)
            (example_budget 1 ''Food'' 1 9999) = Inr fv
         \<and> target_amount fv = 9999 \<and> actual_spent fv = 700)"
  by (simp add: exact_budgets_def exact_spending_def window_budgets_changed_def
      window_spending_after_def engineer_defs example_defs Let_def)

theorem lagged_fields_noninterference_witness:
  "\<exists>fv1 fv2.
     features_for_row (category_budgets_of exact_budgets 1)
         (category_spending_of exact_spending 1) (category_accounts_of [] 1)
         (example_budget 1 ''Food'' 1 2500) = Inr fv1
     \<and> features_for_row (category_budgets_of window_budgets_changed 1)
         (category_spending_of window_spending_after 1) (category_accounts_of [] 1)
         (example_budget 1 ''Food'' 1 9999) = Inr fv2
     \<and> target_amount fv1 = 2500 \<and> target_amount fv2 = 9999
     \<and> actual_spent fv1 = 0 \<and> actual_spent fv2 = 700
     \<and> historical_mean fv1 = historical_mean fv2
     \<and> historical_count fv1 = historical_count fv2
     \<and> historical_spent_mean fv1 = historical_spent_mean fv2
     \<and> historical_combined_mean fv1 = historical_combined_mean fv2"
proof -
  from window_vectors obtain fv1 fv2 where
    f1: "features_for_row (category_budgets_of exact_budgets 1)
           (category_spending_of exact_spending 1) (category_accounts_of [] 1)
           (example_budget 1 ''Food'' 1 2500) = Inr fv1"
    and v1: "target_amount fv1 = 2500" "actual_spent fv1 = 0"
    and f2: "features_for_row (category_budgets_of window_budgets_changed 1)
           (category_spending_of window_spending_after 1) (category_accounts_of [] 1)
           (example_budget 1 ''Food'' 1 9999) = Inr fv2"
    and v2: "target_amount fv2 = 9999" "actual_spent fv2 = 700"
    by blast
  have h1: "filter (\<lambda>b. category_id b = 1 \<and> period_start b < 30) exact_budgets
      = filter (\<lambda>b. category_id b = 1 \<and> period_start b < 30) window_budgets_changed"
    by (simp add: exact_budgets_def window_budgets_changed_def example_defs)
  have h2: "filter (\<lambda>s. sp_category_id s = 1 \<and> txn_date s < 30) exact_spending
      = filter (\<lambda>s. sp_category_id s = 1 \<and> txn_date s < 30) window_spending_after"
    by (simp add: exact_spending_def window_spending_after_def example_defs)
  have h3: "filter (\<lambda>b. category_id b = 1 \<and> period_start b < 30) exact_budgets \<noteq> []"
    by (simp add: exact_budgets_def example_defs)
  have h4: "\<forall>b \<in> set exact_budgets.
      category_id b = 1 \<and> period_start b < 30 \<longrightarrow> period_end b < 30"
    by (simp add: exact_budgets_def example_defs)
  have h5: "period_start (example_budget 1 ''Food'' 1 2500) = 30"
    by (simp add: example_defs)
  have h6: "period_start (example_budget 1 ''Food'' 1 9999) = 30"
    by (simp add: example_defs)
  from lagged_fields_noninterference [OF h1 h2 h3 h4 h5 h6 f1 f2] f1 f2 v1 v2
  show ?thesis by blast
qed

text \<open>
  Claim C7 as stated fails: fields of the vector for a period do read data of that period
  and of later ones. A transaction dated day 40, inside the second period, changes
  \<open>actual_spent\<close> and \<open>budget_accuracy\<close> of the second period's vector; and when the
  category had no transaction before, it also changes \<open>budget_accuracy\<close> of the first
  period's vector from 0.5 to 0.7, through the category's total spending.
\<close>

theorem feature_noninterference_counterexample:
  "map_sum id (map actual_spent) (engineer_features exact_budgets exact_spending [])
     = Inr [2500, 0]
   \<and> map_sum id (map actual_spent) (engineer_features exact_budgets window_spending_after [])
       = Inr [2500, 700]
   \<and> map_sum id (map budget_accuracy) (engineer_features exact_budgets exact_spending [])
       = Inr [1, 0.7]
   \<and> map_sum id (map budget_accuracy)
         (engineer_features exact_budgets window_spending_after [])
       = Inr [1, 0.28]
   \<and> map_sum id (map budget_accuracy)
         (engineer_features exact_budgets other_spending_before [])
       = Inr [0.5, 0.5]
   \<and> map_sum id (map budget_accuracy)
         (engineer_features exact_budgets other_spending_after [])
       = Inr [0.7, 0.28]"
  by (simp add: exact_budgets_def exact_spending_def window_spending_after_def
      other_spending_before_def other_spending_after_def engineer_defs example_defs Let_def)

subsection \<open>A request without any transaction\<close>

text \<open>
  When the spending frame has no row at all, the frame of every category is the
  column-less \<^verbatim>\<open>pd.DataFrame()\<close>. A category with a single period is still engineered
  (\<open>single_rent_features\<close>), but as soon as a period has an earlier one the loop over the
  historical budgets reads the missing column and \<^verbatim>\<open>engineer_features\<close> raises, so that
  \<^verbatim>\<open>predict_with_ml\<close> returns no prediction.
\<close>

lemma no_spending_raises:
  "engineer_features two_period_budgets [] [] = Inl KeyError"
  by (simp add: two_period_budgets_def engineer_defs example_defs Let_def)

lemma no_spending_no_prediction:
  "predict_with_ml (example_env [] Map.empty []) 1 two_period_budgets [] [] = []"
proof -
  have "two_period_budgets \<noteq> []" by (simp add: two_period_budgets_def)
  then show ?thesis by (simp add: predict_with_ml_def no_spending_raises)
qed

subsection \<open>The trend of a prediction\<close>

lemma features_for_row_historical_trend:
  assumes "features_for_row cb cs ca r = Inr fv"
  shows "historical_trend fv =
           (if filter (\<lambda>b. period_start b < period_start r) cb \<noteq> []
            then calculate_trend
                   (planned_values (filter (\<lambda>b. period_start b < period_start r) cb))
            else 0)"
  using assms unfolding features_for_row_def Let_def
  by (auto split: sum.splits)

lemma predict_category_nonempty:
  "predict_category env user_id features_df cat = Inr p
     \<Longrightarrow> category_data_of features_df cat \<noteq> []"
  unfolding predict_category_def Let_def
  by (auto split: if_splits)

lemma predicted_category_has_budget:
  assumes ef: "engineer_features budgets_df spending_df accounts_df = Inr features_df"
    and p: "predict_category env user_id features_df cat = Inr p"
  shows "cat \<in> category_id ` set budgets_df"
proof -
  from predict_category_nonempty [OF p] obtain fv where
    "fv \<in> set (category_data_of features_df cat)"
    by (cases "category_data_of features_df cat") auto
  then have "cat \<in> f_category_id ` set features_df"
    by (auto simp: category_data_of_def)
  with engineered_categories [OF ef] show ?thesis by simp
qed

lemmas trend_defs = calculate_trend_def linregress_slope_def planned_values_def mean_def
  category_budgets_of_def

lemma three_periods_slope:
  "(let cb = category_budgets_of (three_periods a b c) 4;
        prior = filter (\<lambda>x. period_start x < period_start (last cb)) cb
    in if prior \<noteq> [] then calculate_trend (planned_values prior) else 0)
   = real_of_int (b - a)"
  by (simp add: three_periods_def example_defs trend_defs Let_def upt_rec [of 0 2]
      upt_rec [of 1 2] field_simps)

lemma four_periods_slope:
  "(let cb = category_budgets_of four_periods 4;
        prior = filter (\<lambda>x. period_start x < period_start (last cb)) cb
    in if prior \<noteq> [] then calculate_trend (planned_values prior) else 0)
   = 300"
  by (simp add: four_periods_def example_defs trend_defs Let_def upt_rec [of 0 3]
      upt_rec [of 1 3] upt_rec [of 2 3] power2_eq_square)

lemma three_periods_predicted:
  "map p_category_id
     (predict_with_ml (trend_env ''Insufficient data'') 1 (three_periods a b c)
        trend_spending []) = [4]"
  by (simp add: three_periods_def trend_spending_def trend_env_def engineer_defs policy_defs
      example_defs Let_def)

lemma four_periods_predicted:
  "map p_category_id
     (predict_with_ml (trend_env ''Stable'') 1 four_periods trend_spending []) = [4]"
  by (simp add: four_periods_def trend_spending_def trend_env_def engineer_defs policy_defs
      example_defs Let_def)

text \<open>
  Claim C10. In every prediction returned, \<open>trend_direction\<close> is \<open>increasing\<close> exactly when
  the category's historical trend slope exceeds 100, \<open>decreasing\<close> exactly when it is
  below -100, and \<open>stable\<close> otherwise, the slopes 100 and -100 included. The slope is that
  of the category's latest feature vector: the least-squares slope of the planned amounts
  of the periods strictly before the latest one, and 0 when there are fewer than two.
\<close>

theorem trend_direction_classification:
  assumes "p \<in> set (predict_with_ml env user_id budgets_df spending_df accounts_df)"
  shows "let cb = category_budgets_of budgets_df (p_category_id p);
             prior = filter (\<lambda>b. period_start b < period_start (last cb)) cb;
             slope = (if prior \<noteq> [] then calculate_trend (planned_values prior) else 0)
         in (trend_direction p = ''increasing'' \<longleftrightarrow> slope > 100)
          \<and> (trend_direction p = ''decreasing'' \<longleftrightarrow> slope < - 100)
          \<and> (trend_direction p = ''stable'' \<longleftrightarrow> - 100 \<le> slope \<and> slope \<le> 100)"
proof -
  from predict_with_ml_elem [OF assms] obtain features_df where
    ef: "engineer_features budgets_df spending_df accounts_df = Inr features_df"
    and pc: "predict_category env user_id features_df (p_category_id p) = Inr p"
    by blast
  note lf = latest_features(1) [OF ef predicted_category_has_budget [OF ef pc]]
  from predict_category_fields [OF pc] features_for_row_historical_trend [OF lf]
  have "trend_direction p =
      classify_trend
        (if filter (\<lambda>b. period_start b
                        < period_start (last (category_budgets_of budgets_df (p_category_id p))))
              (category_budgets_of budgets_df (p_category_id p)) \<noteq> []
         then calculate_trend
                (planned_values
                   (filter (\<lambda>b. period_start b
                        < period_start (last (category_budgets_of budgets_df (p_category_id p))))
                      (category_budgets_of budgets_df (p_category_id p))))
         else 0)"
    by simp
  then show ?thesis
    unfolding Let_def using classify_trend_cases by presburger
qed

theorem trend_direction_classification_witness:
  "map trend_direction
     (predict_with_ml (trend_env ''Insufficient data'') 1 (three_periods 1000 5000 9000)
        trend_spending []) = [''increasing'']
   \<and> map trend_direction
       (predict_with_ml (trend_env ''Insufficient data'') 1 (three_periods 9000 5000 1000)
          trend_spending []) = [''decreasing'']
   \<and> map trend_direction
       (predict_with_ml (trend_env ''Insufficient data'') 1 (three_periods 1000 1100 1200)
          trend_spending []) = [''stable'']
   \<and> map trend_direction
       (predict_with_ml (trend_env ''Insufficient data'') 1 (three_periods 1200 1100 1000)
          trend_spending []) = [''stable'']
   \<and> map trend_direction
       (predict_with_ml (trend_env ''Insufficient data'') 1 (three_periods 1000 1101 1200)
          trend_spending []) = [''increasing'']
   \<and> map trend_direction
       (predict_with_ml (trend_env ''Insufficient data'') 1 (three_periods 1101 1000 900)
          trend_spending []) = [''decreasing'']
   \<and> map trend_direction
       (predict_with_ml (trend_env ''Stable'') 1 four_periods trend_spending [])
       = [''increasing'']"
proof -
  have step: "map trend_direction (predict_with_ml env 1 bs trend_spending [])
      = [classify_trend sl]"
    if ids: "map p_category_id (predict_with_ml env 1 bs trend_spending []) = [4]"
      and sl: "(let cb = category_budgets_of bs 4;
                    prior = filter (\<lambda>x. period_start x < period_start (last cb)) cb
                in if prior \<noteq> [] then calculate_trend (planned_values prior) else 0) = sl"
    for env bs sl
  proof -
    from ids obtain p where
      res: "predict_with_ml env 1 bs trend_spending [] = [p]" and cat: "p_category_id p = 4"
      by (auto simp: map_eq_Cons_conv)
    then have mem: "p \<in> set (predict_with_ml env 1 bs trend_spending [])" by simp
    from trend_direction_classification [OF mem] sl
    have "(trend_direction p = ''increasing'' \<longleftrightarrow> sl > 100)
        \<and> (trend_direction p = ''decreasing'' \<longleftrightarrow> sl < - 100)
        \<and> (trend_direction p = ''stable'' \<longleftrightarrow> - 100 \<le> sl \<and> sl \<le> 100)"
      unfolding cat Let_def by simp
    then have "trend_direction p = classify_trend sl"
      by (auto simp: classify_trend_def)
    with res show ?thesis by simp
  qed
  note three = step [OF three_periods_predicted three_periods_slope]
  note four = step [OF four_periods_predicted four_periods_slope]
  show ?thesis
    using three [of 1000 5000 9000] three [of 9000 5000 1000] three [of 1000 1100 1200]
      three [of 1200 1100 1000] three [of 1000 1101 1200] three [of 1101 1000 900] four
    by (simp add: classify_trend_def)
qed

subsection \<open>The prediction of the insufficient-data branch\<close>

lemma short_list_hd:
  assumes "length rows \<le> 1" and "rows \<noteq> []"
  shows "rows = [hd rows]"
  using assms by (cases rows) auto

text \<open>
  Claim C6, amended. For a category with fewer than three budget periods whose feature
  vectors were engineered, the first branch of the decision policy fires. The predicted
  amount is the \<open>historical_mean\<close> of the category's latest feature vector. At most one
  period starts strictly before the latest one, so this is the planned amount of that
  one period, or the latest period's own planned amount when there is none; it is not
  the mean over all planned amounts of the category. The confidence is
  \<open>base_confidence * 0.6\<close>, which the clamp leaves unchanged, and the label is the
  insufficient-data label \<open>Historical Average (only n data points)\<close>.
\<close>

theorem insufficient_data_branch:
  assumes "engineer_features budgets_df spending_df accounts_df = Inr features_df"
    and "cat \<in> category_id ` set budgets_df"
    and "length (filter (\<lambda>b. category_id b = cat) budgets_df) < 3"
  shows "let cb = category_budgets_of budgets_df cat;
             prior = filter (\<lambda>b. period_start b < period_start (last cb)) cb
         in length prior \<le> 1
          \<and> (\<exists>p. predict_category env user_id features_df cat = Inr p
                \<and> predicted_amount_cents p
                    = (if prior \<noteq> [] then planned_cents (hd prior)
                       else planned_cents (last cb))
                \<and> real_of_int (predicted_amount_cents p)
                    = historical_mean (latest_data_of features_df cat)
                \<and> confidence_score p
                    = base_confidence_of
                        (length (filter (\<lambda>b. category_id b = cat) budgets_df)) * 0.6
                \<and> ml_model_used p
                    = ''Historical Average (only ''
                        @ str_nat (length (filter (\<lambda>b. category_id b = cat) budgets_df))
                        @ '' data points)'')"
proof -
  let ?cb = "category_budgets_of budgets_df cat"
  let ?prior = "filter (\<lambda>b. period_start b < period_start (last ?cb)) ?cb"
  let ?latest = "latest_data_of features_df cat"
  let ?amount = "if ?prior \<noteq> [] then planned_cents (hd ?prior) else planned_cents (last ?cb)"
  note lf = latest_features [OF assms(1,2)]
  have len: "length (category_data_of features_df cat) < 3"
    using lf(2) assms(3) by simp
  have cb: "?cb \<noteq> []" "length ?cb < 3"
    using category_budgets_of_nonempty [OF assms(2)] assms(3)
    by (simp_all add: length_category_budgets_of)
  note short = prior_of_latest_short [OF cb]
  have hm: "historical_mean ?latest = real_of_int ?amount"
  proof (cases "?prior = []")
    case True
    with features_for_row_historical_mean [OF lf(1)] show ?thesis by simp
  next
    case False
    from mean_planned_short [OF short False] features_for_row_historical_mean [OF lf(1)] False
    show ?thesis by simp
  qed
  have exact: "py_int (historical_mean ?latest) = ?amount"
    unfolding hm by (rule py_int_of_int)
  from insufficient_data_prediction [OF lf(3) len, of env user_id] exact hm lf(2)
  have "\<exists>p. predict_category env user_id features_df cat = Inr p
      \<and> predicted_amount_cents p = ?amount
      \<and> real_of_int (predicted_amount_cents p) = historical_mean ?latest
      \<and> confidence_score p
          = base_confidence_of (length (filter (\<lambda>b. category_id b = cat) budgets_df)) * 0.6
      \<and> ml_model_used p
          = ''Historical Average (only ''
              @ str_nat (length (filter (\<lambda>b. category_id b = cat) budgets_df))
              @ '' data points)''"
    by simp
  with short show ?thesis
    unfolding Let_def by blast
qed

lemma two_period_prior:
  "category_budgets_of two_period_budgets 3 = two_period_budgets"
  "filter (\<lambda>b. period_start b < period_start (last two_period_budgets)) two_period_budgets
     = [example_budget 3 ''Fun'' 0 4000]"
  by (simp_all add: two_period_budgets_def example_defs category_budgets_of_def)

theorem insufficient_data_branch_witness:
  "\<exists>features_df p.
     engineer_features two_period_budgets two_period_spending [] = Inr features_df
     \<and> 3 \<in> category_id ` set two_period_budgets
     \<and> length (filter (\<lambda>b. category_id b = 3) two_period_budgets) < 3
     \<and> predict_category two_period_env 1 features_df 3 = Inr p
     \<and> predicted_amount_cents p = 4000
     \<and> historical_mean (latest_data_of features_df 3) = 4000
     \<and> confidence_score p = 0.276
     \<and> ml_model_used p = ''Historical Average (only 2 data points)''"
proof -
  have "\<exists>fs. engineer_features two_period_budgets two_period_spending [] = Inr fs"
    by (simp add: two_period_budgets_def two_period_spending_def engineer_defs example_defs
        Let_def)
  then obtain fs where
    ef: "engineer_features two_period_budgets two_period_spending [] = Inr fs" ..
  have c: "3 \<in> category_id ` set two_period_budgets"
    by (simp add: two_period_budgets_def example_defs)
  have l: "length (filter (\<lambda>b. category_id b = 3) two_period_budgets) < 3"
    by (simp add: two_period_budgets_def example_defs)
  have n: "length (filter (\<lambda>b. category_id b = 3) two_period_budgets) = 2"
    by (simp add: two_period_budgets_def example_defs)
  have amt: "planned_cents (hd [example_budget 3 ''Fun'' 0 4000]) = 4000"
    by (simp add: example_defs)
  from insufficient_data_branch [OF ef c l, of two_period_env 1]
  obtain p where p: "predict_category two_period_env 1 fs 3 = Inr p"
    "predicted_amount_cents p = 4000"
    "real_of_int (predicted_amount_cents p) = historical_mean (latest_data_of fs 3)"
    "confidence_score p = base_confidence_of 2 * 0.6"
    "ml_model_used p = ''Historical Average (only '' @ str_nat 2 @ '' data points)''"
    unfolding Let_def two_period_prior n amt by auto
  from p(2,3) have "historical_mean (latest_data_of fs 3) = 4000" by simp
  moreover from p(4) have "confidence_score p = 0.276"
    by (simp add: base_confidence_of_def)
  moreover from p(5) have "ml_model_used p = ''Historical Average (only 2 data points)''"
    by (simp add: str_nat.simps)
  ultimately show ?thesis using ef c l p(1,2) by blast
qed

text \<open>
  Claim C6 as stated fails. With the planned amounts 4000 and 6000 the plain average of
  the category's planned amounts is 5000, and the first branch predicts 4000, the amount
  of the earlier period. And when the request has no transaction at all, no branch fires
  for the two-period category: feature engineering raises and nothing is predicted.
\<close>

theorem insufficient_data_counterexample:
  "map predicted_amount_cents
     (predict_with_ml two_period_env 1 two_period_budgets two_period_spending []) = [4000]
   \<and> map ml_model_used
       (predict_with_ml two_period_env 1 two_period_budgets two_period_spending [])
       = [''Historical Average (only 2 data points)'']
   \<and> map confidence_score
       (predict_with_ml two_period_env 1 two_period_budgets two_period_spending [])
       = [0.276]
   \<and> map planned_cents two_period_budgets = [4000, 6000]
   \<and> mean (planned_values two_period_budgets) = 5000
   \<and> engineer_features two_period_budgets [] [] = Inl KeyError
   \<and> predict_with_ml two_period_env 1 two_period_budgets [] [] = []"
  by (simp add: two_period_budgets_def two_period_spending_def two_period_env_def
      engineer_defs policy_defs example_defs Let_def)

end
